theory Spec2Isabelle
  imports Complex_Main "HOL-Library.Sublist" "HOL-Library.Char_ord" "HOL-Library.List_Lexorder"
    "HOL-Library.Log_Nat"
begin

section \<open>JavaScript values used by the knowledge-graph service and the chat interface\<close>

text \<open>
  Strings are lists of 8-bit characters: the patterns, labels and templates of the program
  are ASCII, and a character beyond ASCII stands as the bytes of its UTF-8 encoding, on which
  case conversion is the identity. Numbers are \<^verbatim>\<open>NaN\<close>, the two infinities or a finite
  number, given by the rational it denotes. Ids and years are natural numbers, counts are
  integers.
\<close>

datatype jsnum = NaN | Infinity | NegInfinity | Fin rat

datatype jsval = Undefined | Null | Num jsnum | Str string

text \<open>JavaScript truthiness, as used by \<^verbatim>\<open>||\<close>, \<^verbatim>\<open>!\<close> and \<^verbatim>\<open>if\<close>.\<close>

fun truthy :: "jsval \<Rightarrow> bool" where
  "truthy Undefined = False"
| "truthy Null = False"
| "truthy (Num n) = (n \<noteq> NaN \<and> n \<noteq> Fin 0)"
| "truthy (Str s) = (s \<noteq> [])"

text \<open>\<^verbatim>\<open>a || b\<close>\<close>

definition js_or :: "jsval \<Rightarrow> jsval \<Rightarrow> jsval" where
  "js_or a b = (if truthy a then a else b)"

text \<open>
  Arithmetic is that of IEEE 754 binary64. A finite number is the rational it denotes; the
  result of an operation on finite numbers is the exact result rounded to the nearest
  double, a tie going to the even significand (\<open>to_double\<close>); the two zeros are one number
  here, which \<^verbatim>\<open>||\<close> does not tell apart.
\<close>

definition round_half_even :: "rat \<Rightarrow> int" where
  "round_half_even z =
     (let f = \<lfloor>z\<rfloor>; r = z - of_int f
      in if r < 1 / 2 then f else if 1 / 2 < r then f + 1 else if even f then f else f + 1)"

text \<open>The binary exponent of a number other than 0: \<open>2 powi e \<le> \<bar>x\<bar> < 2 powi (e + 1)\<close>.\<close>

definition exponent :: "rat \<Rightarrow> int" where
  "exponent x = (if 1 \<le> \<bar>x\<bar> then bitlen \<lfloor>\<bar>x\<bar>\<rfloor> - 1 else - bitlen (\<lceil>1 / \<bar>x\<bar>\<rceil> - 1))"

text \<open>Doubles of exponent \<open>e\<close> are the multiples of \<open>2 powi (e - 52)\<close>; below the exponent
  \<open>- 1022\<close> of the least normal number the spacing stays that of the subnormal numbers;
  a result of magnitude \<open>2 powi 1024\<close> is an infinity.\<close>

definition to_double :: "rat \<Rightarrow> jsnum" where
  "to_double x =
     (if x = 0 then Fin 0
      else
        let ulp = 2 powi (max (exponent x) (- 1022) - 52);
            y = of_int (round_half_even (x / ulp)) * ulp
        in if 2 powi 1024 \<le> y then Infinity
           else if y \<le> - (2 powi 1024) then NegInfinity
           else Fin y)"

text \<open>The Number that an integer of the store arrives as.\<close>

definition Number_of :: "int \<Rightarrow> jsnum" where
  "Number_of c = to_double (of_int c)"

text \<open>\<^verbatim>\<open>a + b\<close>\<close>

fun js_add :: "jsnum \<Rightarrow> jsnum \<Rightarrow> jsnum" where
  "js_add (Fin a) (Fin b) = to_double (a + b)"
| "js_add NaN b = NaN"
| "js_add a NaN = NaN"
| "js_add Infinity NegInfinity = NaN"
| "js_add NegInfinity Infinity = NaN"
| "js_add Infinity b = Infinity"
| "js_add a Infinity = Infinity"
| "js_add NegInfinity b = NegInfinity"
| "js_add a NegInfinity = NegInfinity"

text \<open>\<^verbatim>\<open>a / b\<close>: a zero divisor gives \<^verbatim>\<open>NaN\<close> or an infinity.\<close>

fun js_div :: "jsnum \<Rightarrow> jsnum \<Rightarrow> jsnum" where
  "js_div (Fin a) (Fin b) =
     (if b = 0 then (if a = 0 then NaN else if 0 < a then Infinity else NegInfinity)
      else to_double (a / b))"
| "js_div NaN b = NaN"
| "js_div a NaN = NaN"
| "js_div (Fin a) b = Fin 0"
| "js_div a (Fin b) = (if (a = Infinity) = (0 \<le> b) then Infinity else NegInfinity)"
| "js_div a b = NaN"

text \<open>\<^verbatim>\<open>a * b\<close>\<close>

fun js_mul :: "jsnum \<Rightarrow> jsnum \<Rightarrow> jsnum" where
  "js_mul (Fin a) (Fin b) = to_double (a * b)"
| "js_mul NaN b = NaN"
| "js_mul a NaN = NaN"
| "js_mul (Fin a) b =
     (if a = 0 then NaN else if (0 < a) = (b = Infinity) then Infinity else NegInfinity)"
| "js_mul a (Fin b) =
     (if b = 0 then NaN else if (0 < b) = (a = Infinity) then Infinity else NegInfinity)"
| "js_mul a b = (if a = b then Infinity else NegInfinity)"

text \<open>\<^verbatim>\<open>Math.round\<close>: the nearest integer, a tie going up; the result is a double again.\<close>

fun Math_round :: "jsnum \<Rightarrow> jsnum" where
  "Math_round (Fin x) = Fin (of_int \<lfloor>x + 1 / 2\<rfloor>)"
| "Math_round n = n"

text \<open>\<^verbatim>\<open>String(n)\<close> of a non-negative integer: its decimal digits.\<close>

definition digit_char :: "nat \<Rightarrow> char" where
  "digit_char d = ''0123456789'' ! d"

function toString :: "nat \<Rightarrow> string" where
  "toString n = (if n < 10 then [digit_char n] else toString (n div 10) @ [digit_char (n mod 10)])"
  by pat_completeness auto
termination
  by (relation "measure (\<lambda>n. n)") auto

declare toString.simps [simp del]

text \<open>Exceptions are values: a computation that may throw returns \<open>js_error + 'a\<close>.\<close>

datatype js_error = StoreError string | TypeError

definition try_catch :: "js_error + 'a \<Rightarrow> (js_error \<Rightarrow> js_error + 'a) \<Rightarrow> js_error + 'a" where
  "try_catch body handler = (case body of Inl e \<Rightarrow> handler e | Inr v \<Rightarrow> Inr v)"

text \<open>\<^verbatim>\<open>xs.map(f)\<close> where the callback may throw: the first exception leaves the loop.\<close>

fun map_throw :: "('a \<Rightarrow> js_error + 'b) \<Rightarrow> 'a list \<Rightarrow> js_error + 'b list" where
  "map_throw f [] = Inr []"
| "map_throw f (x # xs) =
     (case f x of
        Inl e \<Rightarrow> Inl e
      | Inr y \<Rightarrow> (case map_throw f xs of Inl e \<Rightarrow> Inl e | Inr ys \<Rightarrow> Inr (y # ys)))"

text \<open>\<^verbatim>\<open>[...new Set(xs)]\<close>: the distinct elements in order of first occurrence.\<close>

fun new_Set :: "'a list \<Rightarrow> 'a list" where
  "new_Set [] = []"
| "new_Set (x # xs) = x # new_Set (filter (\<lambda>y. y \<noteq> x) xs)"

section \<open>Regular expressions (\<^verbatim>\<open>RegExp.prototype.test\<close> with the \<^verbatim>\<open>i\<close> flag)\<close>

text \<open>
  The patterns of the classifier use literals, \<^verbatim>\<open>.\<close>, \<^verbatim>\<open>*\<close>, alternation and grouping
  only. \<^verbatim>\<open>test\<close> is decided by derivatives: \<open>deriv c r\<close> matches what \<open>r\<close> matches after a
  leading \<open>c\<close>; \<open>seq\<close> and \<open>alt\<close> build a sequence and an alternative and drop parts that
  match nothing.
\<close>

datatype rx =
    Zero
  | One
  | Chr char
  | Dot
  | Seq rx rx
  | Alt rx rx
  | Star rx

definition upper_letters :: string where
  "upper_letters = ''ABCDEFGHIJKLMNOPQRSTUVWXYZ''"

definition lower_letters :: string where
  "lower_letters = ''abcdefghijklmnopqrstuvwxyz''"

definition toUpper_char :: "char \<Rightarrow> char" where
  "toUpper_char c =
     (case map_of (zip lower_letters upper_letters) c of Some u \<Rightarrow> u | None \<Rightarrow> c)"

definition toLower_char :: "char \<Rightarrow> char" where
  "toLower_char c =
     (case map_of (zip upper_letters lower_letters) c of Some l \<Rightarrow> l | None \<Rightarrow> c)"

definition toLowerCase :: "string \<Rightarrow> string" where
  "toLowerCase s = map toLower_char s"

text \<open>\<^verbatim>\<open>.\<close> matches every character but a line terminator (of the four of JavaScript, line
  feed and carriage return are single characters here).\<close>

definition line_terminator :: "char \<Rightarrow> bool" where
  "line_terminator c = (c = CHR 0x0A \<or> c = CHR 0x0D)"

fun nullable :: "rx \<Rightarrow> bool" where
  "nullable Zero = False"
| "nullable One = True"
| "nullable (Chr p) = False"
| "nullable Dot = False"
| "nullable (Seq r s) = (nullable r \<and> nullable s)"
| "nullable (Alt r s) = (nullable r \<or> nullable s)"
| "nullable (Star r) = True"

definition seq :: "rx \<Rightarrow> rx \<Rightarrow> rx" where
  "seq r s = (if r = Zero \<or> s = Zero then Zero else if r = One then s else Seq r s)"

definition alt :: "rx \<Rightarrow> rx \<Rightarrow> rx" where
  "alt r s = (if r = Zero then s else if s = Zero then r else Alt r s)"

text \<open>The derivative of a pattern by one input character.\<close>

fun deriv :: "char \<Rightarrow> rx \<Rightarrow> rx" where
  "deriv c Zero = Zero"
| "deriv c One = Zero"
| "deriv c (Chr p) = (if c = p then One else Zero)"
| "deriv c Dot = (if line_terminator c then Zero else One)"
| "deriv c (Seq r s) =
     (if nullable r then alt (seq (deriv c r) s) (deriv c s) else seq (deriv c r) s)"
| "deriv c (Alt r s) = alt (deriv c r) (deriv c s)"
| "deriv c (Star r) = seq (deriv c r) (Star r)"

text \<open>Does the pattern match some prefix of the input?\<close>

fun match_prefix :: "rx \<Rightarrow> string \<Rightarrow> bool" where
  "match_prefix r [] = nullable r"
| "match_prefix r (c # cs) = (nullable r \<or> match_prefix (deriv c r) cs)"

text \<open>A pattern without the \<^verbatim>\<open>^\<close> anchor may match at any position of the input.\<close>

fun match_anywhere :: "rx \<Rightarrow> string \<Rightarrow> bool" where
  "match_anywhere r [] = match_prefix r []"
| "match_anywhere r (c # cs) = (match_prefix r (c # cs) \<or> match_anywhere r cs)"

text \<open>With the flag \<^verbatim>\<open>i\<close> a pattern character and an input character match when
  their canonical (upper-case) forms are equal.\<close>

fun canonicalize :: "rx \<Rightarrow> rx" where
  "canonicalize Zero = Zero"
| "canonicalize One = One"
| "canonicalize (Chr p) = Chr (toUpper_char p)"
| "canonicalize Dot = Dot"
| "canonicalize (Seq r s) = Seq (canonicalize r) (canonicalize s)"
| "canonicalize (Alt r s) = Alt (canonicalize r) (canonicalize s)"
| "canonicalize (Star r) = Star (canonicalize r)"

text \<open>\<^verbatim>\<open>/r/i.test(s)\<close>\<close>

definition rx_test :: "rx \<Rightarrow> string \<Rightarrow> bool" where
  "rx_test r s = match_anywhere (canonicalize r) (map toUpper_char s)"

fun lit :: "string \<Rightarrow> rx" where
  "lit [] = One"
| "lit [c] = Chr c"
| "lit (c # cs) = Seq (Chr c) (lit cs)"

fun alts :: "rx list \<Rightarrow> rx" where
  "alts [] = Zero"
| "alts [r] = r"
| "alts (r # rs) = Alt r (alts rs)"

fun seqs :: "rx list \<Rightarrow> rx" where
  "seqs [] = One"
| "seqs [r] = r"
| "seqs (r # rs) = Seq r (seqs rs)"

abbreviation any :: rx where
  "any \<equiv> Star Dot"

section \<open>Intent classifier: \<^verbatim>\<open>determineVisualizationType\<close>\<close>

datatype vis_type = Comparison | Trend | Sentiment | Relationship

definition comparison_patterns :: "rx list" where
  "comparison_patterns =
    [ seqs [lit ''compare '', any, lit '' '', alts [lit ''with'', lit ''to'', lit ''against''],
            lit '' '', any],
      seqs [lit ''difference between '', any, lit '' and '', any],
      seqs [lit ''how does '', any, lit '' stack up '', any],
      alts [lit ''versus'', lit ''vs''],
      seqs [alts [lit ''better'', lit ''worse''], lit '' than''] ]"

definition trend_patterns :: "rx list" where
  "trend_patterns =
    [ seqs [lit ''evolution of '', any],
      seqs [lit ''changes over time '', any],
      seqs [lit ''history of '', any],
      seqs [lit ''how has '', any, lit '' changed''],
      lit ''timeline'',
      lit ''development'' ]"

definition sentiment_patterns :: "rx list" where
  "sentiment_patterns =
    [ seqs [lit ''what do '',
            alts [lit ''people'', lit ''owners'', lit ''users'', lit ''customers''],
            lit '' think''],
      lit ''reviews'',
      lit ''sentiment'',
      lit ''opinion'',
      alts [lit ''like'', lit ''dislike''],
      alts [lit ''positive'', lit ''negative''],
      lit ''feedback'' ]"

definition relationship_patterns :: "rx list" where
  "relationship_patterns =
    [ lit ''related to'',
      lit ''connections between'',
      lit ''relationship with'',
      seqs [lit ''similar '', alts [lit ''to'', lit ''models'']],
      lit ''family tree'',
      alts [lit ''predecessors'', lit ''successors''] ]"

text \<open>The object literal \<^verbatim>\<open>patterns\<close>; \<^verbatim>\<open>Object.entries\<close> lists its keys in
  insertion order.\<close>

definition patterns :: "(vis_type \<times> rx list) list" where
  "patterns =
    [ (Comparison, comparison_patterns),
      (Trend, trend_patterns),
      (Sentiment, sentiment_patterns),
      (Relationship, relationship_patterns) ]"

definition featureTerms :: "string list" where
  "featureTerms =
    [ ''performance'', ''safety'', ''reliability'', ''comfort'',
      ''fuel economy'', ''technology'', ''value'', ''styling'' ]"

text \<open>\<^verbatim>\<open>s.includes(t)\<close>\<close>

definition str_includes :: "string \<Rightarrow> string \<Rightarrow> bool" where
  "str_includes s t = sublist t s"

text \<open>\<^verbatim>\<open>typePatterns.some(pattern => pattern.test(lowerQuery))\<close>\<close>

definition some_pattern :: "rx list \<Rightarrow> string \<Rightarrow> bool" where
  "some_pattern typePatterns lowerQuery = list_ex (\<lambda>pattern. rx_test pattern lowerQuery) typePatterns"

definition determineVisualizationType :: "jsval \<Rightarrow> vis_type option" where
  "determineVisualizationType query =
     (case query of
        Str q \<Rightarrow>
          if q = [] then None
          else
            let lowerQuery = toLowerCase q in
            (case find (\<lambda>(type, typePatterns). some_pattern typePatterns lowerQuery) patterns of
               Some (type, typePatterns) \<Rightarrow> Some type
             | None \<Rightarrow>
                 if list_ex (\<lambda>term. str_includes lowerQuery term) featureTerms then
                   (if str_includes lowerQuery ''compare'' \<or> str_includes lowerQuery ''other''
                      then Some Comparison
                    else if str_includes lowerQuery ''history'' \<or> str_includes lowerQuery ''improved''
                      then Some Trend
                    else Some Sentiment)
                 else None)
      | _ \<Rightarrow> None)"

section \<open>Knowledge data fetchers\<close>

text \<open>
  The store is external. A query either rejects (the \<^verbatim>\<open>await\<close> throws) or resolves to an
  object \<^verbatim>\<open>{ data, error }\<close>, where \<^verbatim>\<open>data\<close> may be \<^verbatim>\<open>null\<close>.
\<close>

datatype 'row response = Response (data: "'row list option") (error: "js_error option")

datatype 'row outcome = Rejected js_error | Resolved "'row response"

type_synonym car_id = nat

record car =
  car_ident :: car_id
  manufacturer :: string
  model :: string
  year :: nat
  body_type :: string

text \<open>\<^verbatim>\<open>`${carData.year} ${carData.manufacturer} ${carData.model}`\<close>\<close>

definition display_name :: "car \<Rightarrow> string" where
  "display_name c = toString (year c) @ '' '' @ manufacturer c @ '' '' @ model c"

record relationship_row =
  row_id :: nat
  relationship_type :: string
  relationship_strength :: rat
  metadata :: "(string \<times> string) list"
  target_cars :: "car option"

record relationship =
  rel_id :: car_id
  rel_label :: string
  rel_type :: string
  rel_strength :: rat
  rel_metadata :: "(string \<times> string) list"

text \<open>The body of a fetcher's \<^verbatim>\<open>try\<close> block up to the rows: the awaited query, then
  \<^verbatim>\<open>if (error) throw error\<close>.\<close>

definition awaited :: "'row outcome \<Rightarrow> js_error + 'row list option" where
  "awaited out =
     (case out of
        Rejected e \<Rightarrow> Inl e
      | Resolved r \<Rightarrow> (case error r of Some e \<Rightarrow> Inl e | None \<Rightarrow> Inr (data r)))"

definition format_relationship :: "relationship_row \<Rightarrow> js_error + relationship" where
  "format_relationship rel =
     (case target_cars rel of
        None \<Rightarrow> Inl TypeError
      | Some t \<Rightarrow>
          Inr \<lparr> rel_id = car_ident t,
                rel_label = display_name t,
                rel_type = relationship_type rel,
                rel_strength = relationship_strength rel,
                rel_metadata = metadata rel \<rparr>)"

definition getCarRelationships :: "relationship_row outcome \<Rightarrow> js_error + relationship list" where
  "getCarRelationships out =
     try_catch
       (case awaited out of
          Inl e \<Rightarrow> Inl e
        | Inr None \<Rightarrow> Inl TypeError
        | Inr (Some relationships) \<Rightarrow> map_throw format_relationship relationships)
       (\<lambda>e. Inr [])"

record feature_row =
  f_car_id :: car_id
  category :: string
  feature_name :: string
  feature_rating :: jsval
  feature_value :: jsval

type_synonym features = "car_id \<rightharpoonup> (string \<rightharpoonup> (string \<rightharpoonup> jsval))"

text \<open>The \<^verbatim>\<open>reduce\<close> that builds the object of one category: a later row of the same
  feature name overwrites an earlier one.\<close>

definition category_object :: "feature_row list \<Rightarrow> (string \<rightharpoonup> jsval)" where
  "category_object rows =
     foldl (\<lambda>acc feat. acc(feature_name feat \<mapsto> js_or (feature_rating feat) (feature_value feat)))
       Map.empty rows"

definition car_object :: "feature_row list \<Rightarrow> (string \<rightharpoonup> (string \<rightharpoonup> jsval))" where
  "car_object carFeatures =
     foldl (\<lambda>obj cat. obj(cat \<mapsto> category_object (filter (\<lambda>f. category f = cat) carFeatures)))
       Map.empty (new_Set (map category carFeatures))"

definition getCarFeatures :: "car_id list \<Rightarrow> feature_row outcome \<Rightarrow> js_error + features" where
  "getCarFeatures carIds out =
     try_catch
       (case awaited out of
          Inl e \<Rightarrow> Inl e
        | Inr None \<Rightarrow> (if carIds = [] then Inr Map.empty else Inl TypeError)
        | Inr (Some features) \<Rightarrow>
            Inr (foldl (\<lambda>result ident.
                          result(ident \<mapsto> car_object (filter (\<lambda>f. f_car_id f = ident) features)))
                   Map.empty carIds))
       (\<lambda>e. Inr Map.empty)"

record timeline_event =
  ev_car_id :: car_id
  ev_year :: nat
  event_type :: string
  significance_score :: jsval

text \<open>\<^verbatim>\<open>getCarTimeline\<close> returns \<^verbatim>\<open>data\<close> as it is, so \<^verbatim>\<open>null\<close> data is returned as
  \<^verbatim>\<open>null\<close> (\<open>None\<close>).\<close>

definition getCarTimeline :: "timeline_event outcome \<Rightarrow> js_error + timeline_event list option" where
  "getCarTimeline out =
     try_catch
       (case awaited out of
          Inl e \<Rightarrow> Inl e
        | Inr events \<Rightarrow> Inr events)
       (\<lambda>e. Inr (Some []))"

record sentiment_row =
  aspect :: string
  positive_count :: int
  negative_count :: int
  neutral_count :: int
  key_positive_terms :: "string list option"
  key_negative_terms :: "string list option"

record sentiment_item =
  s_aspect :: string
  positive :: jsval
  negative :: jsval
  neutral :: jsval
  key_terms_positive :: "string list"
  key_terms_negative :: "string list"

text \<open>\<^verbatim>\<open>item.positive_count + item.negative_count + item.neutral_count\<close>\<close>

definition total_count :: "sentiment_row \<Rightarrow> jsnum" where
  "total_count item =
     js_add (js_add (Number_of (positive_count item)) (Number_of (negative_count item)))
       (Number_of (neutral_count item))"

text \<open>\<^verbatim>\<open>Math.round((count / (positive_count + negative_count + neutral_count)) * 100) || 0\<close>\<close>

definition percentage :: "int \<Rightarrow> sentiment_row \<Rightarrow> jsval" where
  "percentage count item =
     js_or
       (Num (Math_round (js_mul (js_div (Number_of count) (total_count item)) (Fin 100))))
       (Num (Fin 0))"

definition format_sentiment :: "sentiment_row \<Rightarrow> sentiment_item" where
  "format_sentiment item =
     \<lparr> s_aspect = aspect item,
       positive = percentage (positive_count item) item,
       negative = percentage (negative_count item) item,
       neutral = percentage (neutral_count item) item,
       key_terms_positive = (case key_positive_terms item of Some ts \<Rightarrow> ts | None \<Rightarrow> []),
       key_terms_negative = (case key_negative_terms item of Some ts \<Rightarrow> ts | None \<Rightarrow> []) \<rparr>"

definition getReviewSentiment :: "sentiment_row outcome \<Rightarrow> js_error + sentiment_item list" where
  "getReviewSentiment out =
     try_catch
       (case awaited out of
          Inl e \<Rightarrow> Inl e
        | Inr None \<Rightarrow> Inl TypeError
        | Inr (Some sentiment) \<Rightarrow> Inr (map format_sentiment sentiment))
       (\<lambda>e. Inr [])"

section \<open>Visualization data shaper: \<^verbatim>\<open>generateVisualizationData\<close>\<close>

subsection \<open>\<^verbatim>\<open>case 'comparison'\<close>\<close>

record entity =
  ent_id :: car_id
  ent_name :: string
  ent_color :: string

record comparison_payload =
  categories :: "string list"
  entities :: "entity list"
  cmp_values :: "jsval list list"

definition comparison_categories :: "string list" where
  "comparison_categories = [''Performance'', ''Comfort'', ''Safety'', ''Technology'', ''Value'']"

text \<open>
  \<^verbatim>\<open>Math.random()\<close> is a supply \<open>rand\<close> of numbers in \<open>[0, 1)\<close>, each taken to the nearest
  double, and the index of the next draw. \<^verbatim>\<open>features[id][cat]?.overall || Math.random() * 2 + 3\<close> reads a property of
  \<^verbatim>\<open>features[id]\<close>, which throws when \<^verbatim>\<open>features[id]\<close> is undefined; the optional chaining
  only guards the category.
\<close>

definition overall_or_random ::
  "features \<Rightarrow> car_id \<Rightarrow> (nat \<Rightarrow> rat) \<Rightarrow> nat \<Rightarrow> string \<Rightarrow> js_error + (jsval \<times> nat)" where
  "overall_or_random features ident rand i cat =
     (case features ident of
        None \<Rightarrow> Inl TypeError
      | Some obj \<Rightarrow>
          let overall =
                (case obj cat of
                   None \<Rightarrow> Undefined
                 | Some c \<Rightarrow> (case c ''overall'' of None \<Rightarrow> Undefined | Some v \<Rightarrow> v))
          in if truthy overall then Inr (overall, i)
             else Inr (Num (js_add (js_mul (to_double (rand i)) (Fin 2)) (Fin 3)), Suc i))"

text \<open>\<^verbatim>\<open>categories.map(cat => ...)\<close> for one entity, the draws threaded from left to right.\<close>

fun entity_values ::
  "features \<Rightarrow> car_id \<Rightarrow> (nat \<Rightarrow> rat) \<Rightarrow> nat \<Rightarrow> string list \<Rightarrow> js_error + (jsval list \<times> nat)" where
  "entity_values features ident rand i [] = Inr ([], i)"
| "entity_values features ident rand i (cat # cats) =
     (case overall_or_random features ident rand i cat of
        Inl e \<Rightarrow> Inl e
      | Inr (v, j) \<Rightarrow>
          (case entity_values features ident rand j cats of
             Inl e \<Rightarrow> Inl e
           | Inr (vs, k) \<Rightarrow> Inr (v # vs, k)))"

fun all_values ::
  "features \<Rightarrow> (nat \<Rightarrow> rat) \<Rightarrow> nat \<Rightarrow> car_id list \<Rightarrow> js_error + (jsval list list \<times> nat)" where
  "all_values features rand i [] = Inr ([], i)"
| "all_values features rand i (ident # idents) =
     (case entity_values features ident rand i comparison_categories of
        Inl e \<Rightarrow> Inl e
      | Inr (row, j) \<Rightarrow>
          (case all_values features rand j idents of
             Inl e \<Rightarrow> Inl e
           | Inr (rows, k) \<Rightarrow> Inr (row # rows, k)))"

definition competitor_entities :: "relationship list \<Rightarrow> entity list" where
  "competitor_entities competitors =
     map (\<lambda>(index, comp).
            \<lparr> ent_id = rel_id comp, ent_name = rel_label comp,
              ent_color = (if index = 0 then ''#82ca9d'' else ''#ffc658'') \<rparr>)
       (enumerate 0 competitors)"

definition generateVisualizationData_comparison ::
  "car \<Rightarrow> relationship_row outcome \<Rightarrow> feature_row outcome \<Rightarrow> (nat \<Rightarrow> rat)
     \<Rightarrow> js_error + comparison_payload" where
  "generateVisualizationData_comparison carData rel_out feat_out rand =
     (case getCarRelationships rel_out of
        Inl e \<Rightarrow> Inl e
      | Inr relationships \<Rightarrow>
          let competitors = take 2 (filter (\<lambda>rel. rel_type rel = ''competitor'') relationships);
              carIds = car_ident carData # map rel_id competitors
          in (case getCarFeatures carIds feat_out of
                Inl e \<Rightarrow> Inl e
              | Inr features \<Rightarrow>
                  (case all_values features rand 0 carIds of
                     Inl e \<Rightarrow> Inl e
                   | Inr (rows, k) \<Rightarrow>
                       Inr \<lparr> categories = comparison_categories,
                             entities =
                               \<lparr> ent_id = car_ident carData, ent_name = display_name carData,
                                 ent_color = ''#8884d8'' \<rparr>
                               # competitor_entities competitors,
                             cmp_values = rows \<rparr>)))"

subsection \<open>\<^verbatim>\<open>case 'trend'\<close>\<close>

record time_point =
  label :: string
  Safety :: jsval
  Performance :: jsval
  Technology :: jsval

record series_desc =
  series_key :: string
  series_name :: string
  series_color :: string

record trend_payload =
  timeSeriesData :: "time_point list"
  series :: "series_desc list"
  yDomain :: "rat \<times> rat"

text \<open>\<^verbatim>\<open>years.sort()\<close> has no comparator: the elements are ordered as strings.\<close>

definition sort_default :: "nat list \<Rightarrow> nat list" where
  "sort_default xs = sort_key toString xs"

text \<open>\<^verbatim>\<open>yearEvents.find(e => e.event_type === ty)?.significance_score || null\<close>\<close>

definition series_score :: "timeline_event list \<Rightarrow> string \<Rightarrow> jsval" where
  "series_score yearEvents ty =
     js_or
       (case find (\<lambda>e. event_type e = ty) yearEvents of
          None \<Rightarrow> Undefined
        | Some e \<Rightarrow> significance_score e)
       Null"

definition year_point :: "timeline_event list \<Rightarrow> nat \<Rightarrow> time_point" where
  "year_point timelineData y =
     (let yearEvents = filter (\<lambda>item. ev_year item = y) timelineData
      in \<lparr> label = toString y,
            Safety = series_score yearEvents ''safety'',
            Performance = series_score yearEvents ''performance'',
            Technology = series_score yearEvents ''technology'' \<rparr>)"

definition trend_series :: "series_desc list" where
  "trend_series =
     [ \<lparr> series_key = ''Safety'', series_name = ''Safety Rating'', series_color = ''#8884d8'' \<rparr>,
       \<lparr> series_key = ''Performance'', series_name = ''Performance Rating'',
         series_color = ''#82ca9d'' \<rparr>,
       \<lparr> series_key = ''Technology'', series_name = ''Technology Rating'',
         series_color = ''#ffc658'' \<rparr> ]"

definition generateVisualizationData_trend :: "timeline_event outcome \<Rightarrow> js_error + trend_payload" where
  "generateVisualizationData_trend timeline_out =
     (case getCarTimeline timeline_out of
        Inl e \<Rightarrow> Inl e
      | Inr None \<Rightarrow> Inl TypeError
      | Inr (Some timelineData) \<Rightarrow>
          let years = sort_default (new_Set (map ev_year timelineData))
          in Inr \<lparr> timeSeriesData = map (year_point timelineData) years,
                   series = trend_series,
                   yDomain = (0, 5) \<rparr>)"

subsection \<open>\<^verbatim>\<open>case 'relationship'\<close>\<close>

record graph_node =
  node_id :: car_id
  node_label :: string
  node_type :: string

record graph_link =
  source :: car_id
  target :: car_id
  link_type :: string
  strength :: rat

record relationship_payload =
  primaryNode :: "car_id \<times> string"
  nodes :: "graph_node list"
  links :: "graph_link list"

definition generateVisualizationData_relationship ::
  "car \<Rightarrow> relationship_row outcome \<Rightarrow> js_error + relationship_payload" where
  "generateVisualizationData_relationship carData rel_out =
     (case getCarRelationships rel_out of
        Inl e \<Rightarrow> Inl e
      | Inr allRelationships \<Rightarrow>
          Inr \<lparr> primaryNode = (car_ident carData, display_name carData),
                nodes =
                  \<lparr> node_id = car_ident carData, node_label = display_name carData,
                    node_type = ''primary'' \<rparr>
                  # map (\<lambda>rel. \<lparr> node_id = rel_id rel, node_label = rel_label rel,
                                  node_type = rel_type rel \<rparr>) allRelationships,
                links =
                  map (\<lambda>rel. \<lparr> source = car_ident carData, target = rel_id rel,
                                link_type = rel_type rel, strength = rel_strength rel \<rparr>)
                    allRelationships \<rparr>)"

section \<open>Suggestion generator: \<^verbatim>\<open>generateSuggestions\<close>\<close>

record suggestion_context =
  ctx_carData :: "car option"
  ctx_intent :: "string option"
  conversationLength :: nat

definition generateSuggestions :: "suggestion_context \<Rightarrow> string list" where
  "generateSuggestions ctx =
     (case ctx_carData ctx of
        None \<Rightarrow>
          [ ''What cars do you recommend?'',
            ''Tell me about SUVs'',
            ''What are the most fuel-efficient cars?'',
            ''What should I look for when buying a used car?'',
            ''What are the safest family vehicles?'' ]
      | Some carData \<Rightarrow>
          let carName = display_name carData in
          if conversationLength ctx \<le> 2 then
            [ ''What's the fuel economy like for the '' @ carName @ ''?'',
              ''Tell me about the engine in the '' @ carName,
              ''How comfortable is the '' @ carName @ ''?'',
              ''What are the safety features in the '' @ carName @ ''?'',
              ''Is the '' @ carName @ '' reliable?'' ]
          else if ctx_intent ctx = Some ''fuel_economy'' then
            [ ''How does the '' @ carName @ '''s fuel economy compare to competitors?'',
              ''What's the driving range of the '' @ carName @ ''?'',
              ''Does the '' @ carName @ '' require premium fuel?'',
              ''Are there any fuel-saving features in the '' @ carName @ ''?'' ]
          else if ctx_intent ctx = Some ''performance'' then
            [ ''What's the horsepower of the '' @ carName @ ''?'',
              ''How does the '' @ carName @ '' handle in different conditions?'',
              ''What's the 0-60 time for the '' @ carName @ ''?'',
              ''How is the braking performance of the '' @ carName @ ''?'' ]
          else if ctx_intent ctx = Some ''reliability'' then
            [ ''What are common issues with the '' @ carName @ ''?'',
              ''How long do '' @ manufacturer carData @ '' vehicles typically last?'',
              ''What's the warranty coverage for the '' @ carName @ ''?'',
              ''Is the '' @ carName @ '' expensive to maintain?'' ]
          else if ctx_intent ctx = Some ''safety'' then
            [ ''What safety ratings does the '' @ carName @ '' have?'',
              ''Does the '' @ carName @ '' have advanced driver assistance?'',
              ''How many airbags does the '' @ carName @ '' have?'',
              ''Is the '' @ carName @ '' a good family vehicle?'' ]
          else
            [ ''How does the '' @ carName @ '' compare to similar vehicles?'',
              ''What are owners saying about the '' @ carName @ ''?'',
              ''What are the pros and cons of the '' @ carName @ ''?'',
              ''Would you recommend the '' @ carName @ ''?'' ])"

section \<open>Conversation orchestrator: \<^verbatim>\<open>handleSend\<close> of \<^verbatim>\<open>EnhancedChatInterface\<close>\<close>

datatype sender = User | AI

record analysis =
  category_scores :: "(string \<times> rat) list option"
  common_pros :: "string list option"
  common_cons :: "string list option"
  an_sentiment :: "(string \<times> rat) list option"
  average_rating :: jsval

text \<open>The parsed body of a successful reply of \<^verbatim>\<open>/api/chat\<close>.\<close>

record chat_data =
  response_text :: string
  car_data :: "car option"
  chat_analysis :: "analysis option"
  primaryIntent :: "string option"

text \<open>The request fails when \<^verbatim>\<open>fetch\<close> rejects, the status is not ok or the body does not
  parse; all three reach the \<^verbatim>\<open>catch\<close> block.\<close>

datatype chat_outcome = Failed | Replied chat_data

datatype component =
    Specification car
  | Category_scores "(string \<times> rat) list"
  | Pros_cons "string list" "string list"
  | Sentiment_card "(string \<times> rat) list"
  | Rating jsval rat

record message =
  text_of :: string
  sender_of :: sender
  components :: "component list option"
  suggestions :: "string list option"
  is_error :: bool
  showRetry :: "bool option"
  carName_of :: "string option"

record error_state =
  hasError :: bool
  retryCount :: nat

record chat_state =
  messages :: "message list"
  input :: string
  loading :: bool
  showSuggestions :: bool
  carData_of :: "car option"
  typingEffect :: bool
  currentTypingText :: string
  fullResponseText :: string
  errorState :: error_state

definition plain_message :: "string \<Rightarrow> sender \<Rightarrow> message" where
  "plain_message t s =
     \<lparr> text_of = t, sender_of = s, components = None, suggestions = None, is_error = False,
       showRetry = None, carName_of = None \<rparr>"

text \<open>\<^verbatim>\<open>!messageText.trim()\<close>: the text is empty once white space is trimmed (the ASCII
  white space and line terminators).\<close>

definition is_whitespace :: "char \<Rightarrow> bool" where
  "is_whitespace c = (c \<in> set [CHR '' '', CHR 0x09, CHR 0x0A, CHR 0x0B, CHR 0x0C, CHR 0x0D])"

definition blank :: "string \<Rightarrow> bool" where
  "blank messageText = list_all is_whitespace messageText"

text \<open>The components pushed on the AI response, in the order of the source.\<close>

definition response_components :: "chat_data \<Rightarrow> message list \<Rightarrow> component list" where
  "response_components d msgs =
     (case chat_analysis d of
        Some a \<Rightarrow>
          (case car_data d of
             Some c \<Rightarrow> if length msgs \<le> 2 then [Specification c] else []
           | None \<Rightarrow> [])
          @ (case category_scores a of
               Some scores \<Rightarrow> if length scores > 0 then [Category_scores scores] else []
             | None \<Rightarrow> [])
          @ (if (case common_pros a of Some ps \<Rightarrow> length ps > 0 | None \<Rightarrow> False)
                \<or> (case common_cons a of Some cs \<Rightarrow> length cs > 0 | None \<Rightarrow> False)
             then [Pros_cons (case common_pros a of Some ps \<Rightarrow> ps | None \<Rightarrow> [])
                             (case common_cons a of Some cs \<Rightarrow> cs | None \<Rightarrow> [])]
             else [])
          @ (case an_sentiment a of Some sent \<Rightarrow> [Sentiment_card sent] | None \<Rightarrow> [])
          @ (if truthy (average_rating a)
             then [Rating (average_rating a)
                     (case an_sentiment a of
                        Some sent \<Rightarrow> foldl (\<lambda>x y. x + y) 0 (map snd sent)
                      | None \<Rightarrow> 0)]
             else [])
      | None \<Rightarrow>
          (case car_data d of
             Some c \<Rightarrow> if length msgs \<le> 2 then [Specification c] else []
           | None \<Rightarrow> []))"

definition error_text :: "nat \<Rightarrow> string" where
  "error_text newRetryCount =
     (if newRetryCount = 1 then
        ''I'm having trouble accessing information about this vehicle. Let me try again...''
      else if newRetryCount = 2 then
        ''I apologize for the difficulty. My connection to the vehicle database seems unstable right now.''
      else
        ''I'm very sorry, but I'm unable to connect to our automotive database at the moment. I can still chat about general car topics or answer basic questions about this model based on what I already know.'')"

definition fallback_message :: "car \<Rightarrow> message" where
  "fallback_message carData =
     (plain_message
        (''I can still tell you general information about the '' @ display_name carData
           @ '' based on my automotive knowledge. What would you like to know?'') AI)
     \<lparr> suggestions :=
         Some [ ''Tell me about this car model'',
                ''What's this car known for?'',
                ''Common issues with this model'',
                ''What should I look for when buying?'' ] \<rparr>"

text \<open>
  One run of \<^verbatim>\<open>handleSend\<close> to completion, the outcome of the request given. The values
  of \<^verbatim>\<open>messages\<close>, \<^verbatim>\<open>errorState\<close> and \<^verbatim>\<open>carData\<close> read inside are those of the state the
  handler was called in; the message of the one-second timer is appended last.
\<close>

definition handleSend :: "string \<Rightarrow> chat_outcome \<Rightarrow> chat_state \<Rightarrow> chat_state" where
  "handleSend messageText outcome st =
     (if blank messageText then st
      else
        let st1 = st \<lparr> messages := messages st @ [plain_message messageText User],
                       input := [], loading := True, showSuggestions := False \<rparr>
        in
        (case outcome of
           Replied d \<Rightarrow>
             let aiResponse =
                   (plain_message [] AI)
                   \<lparr> components := Some (response_components d (messages st)),
                     suggestions :=
                       Some (generateSuggestions
                         \<lparr> ctx_carData = car_data d, ctx_intent = primaryIntent d,
                           conversationLength =
                             length (filter (\<lambda>m. sender_of m = User) (messages st)) \<rparr>) \<rparr>
             in st1 \<lparr> messages := messages st1 @ [aiResponse],
                      fullResponseText := response_text d,
                      currentTypingText := [],
                      typingEffect := True,
                      errorState := \<lparr> hasError = False, retryCount = 0 \<rparr>,
                      loading := False \<rparr>
         | Failed \<Rightarrow>
             let newRetryCount = retryCount (errorState st) + 1;
                 errorMessage =
                   \<lparr> text_of = error_text newRetryCount, sender_of = AI, components = None,
                     suggestions = None, is_error = True,
                     showRetry = Some (newRetryCount < 3),
                     carName_of = map_option display_name (carData_of st) \<rparr>
             in st1 \<lparr> errorState := \<lparr> hasError = True, retryCount = newRetryCount \<rparr>,
                      messages :=
                        messages st1 @ [errorMessage]
                        @ (case carData_of st of
                             Some carData \<Rightarrow>
                               if newRetryCount \<ge> 3 then [fallback_message carData] else []
                           | None \<Rightarrow> []),
                      loading := False \<rparr>))"

section \<open>Notions used to state the properties\<close>

text \<open>The store query failed: the promise rejected, or it resolved with an error.\<close>

definition query_failed :: "'row outcome \<Rightarrow> bool" where
  "query_failed out = (case out of Rejected e \<Rightarrow> True | Resolved r \<Rightarrow> error r \<noteq> None)"

text \<open>
  What \<^verbatim>\<open>test\<close> decides, stated without an algorithm: the words a pattern denotes, and
  whether some substring of the input is one of them.
\<close>

inductive_set star :: "string set \<Rightarrow> string set" for A :: "string set" where
  star_empty: "[] \<in> star A"
| star_step: "u \<in> A \<Longrightarrow> v \<in> star A \<Longrightarrow> u @ v \<in> star A"

fun lang :: "rx \<Rightarrow> string set" where
  "lang Zero = {}"
| "lang One = {[]}"
| "lang (Chr p) = {[p]}"
| "lang Dot = {[c] | c. \<not> line_terminator c}"
| "lang (Seq r s) = {u @ v | u v. u \<in> lang r \<and> v \<in> lang s}"
| "lang (Alt r s) = lang r \<union> lang s"
| "lang (Star r) = star (lang r)"

definition has_match :: "rx \<Rightarrow> string \<Rightarrow> bool" where
  "has_match r s = (\<exists>t u v. s = t @ u @ v \<and> u \<in> lang r)"


text \<open>A message carries a rating card.\<close>

fun is_rating :: "component \<Rightarrow> bool" where
  "is_rating (Rating r n) = True"
| "is_rating c = False"

definition has_rating_card :: "message \<Rightarrow> bool" where
  "has_rating_card m = (case components m of None \<Rightarrow> False | Some cs \<Rightarrow> list_ex is_rating cs)"

text \<open>The score of the first event of a year and a type, in the order of the timeline;
  \<^verbatim>\<open>null\<close> when there is no such event.\<close>

definition first_score :: "timeline_event list \<Rightarrow> nat \<Rightarrow> string \<Rightarrow> jsval" where
  "first_score evs y ty =
     (case find (\<lambda>e. ev_year e = y \<and> event_type e = ty) evs of
        None \<Rightarrow> Null
      | Some e \<Rightarrow> significance_score e)"

definition first_point :: "timeline_event list \<Rightarrow> nat \<Rightarrow> time_point" where
  "first_point evs y =
     \<lparr> label = toString y,
       Safety = first_score evs y ''safety'',
       Performance = first_score evs y ''performance'',
       Technology = first_score evs y ''technology'' \<rparr>"

text \<open>The numeric value of a score.\<close>

fun score_value :: "jsval \<Rightarrow> rat" where
  "score_value (Num (Fin r)) = r"
| "score_value v = 0"

text \<open>In the words of the specification: the score of the most significant event of a year
  and a type, \<^verbatim>\<open>null\<close> where no such event exists.\<close>

definition most_significant_score :: "timeline_event list \<Rightarrow> nat \<Rightarrow> string \<Rightarrow> jsval" where
  "most_significant_score evs y ty =
     (case filter (\<lambda>e. ev_year e = y \<and> event_type e = ty) evs of
        [] \<Rightarrow> Null
      | e # es \<Rightarrow>
          significance_score
            (foldl (\<lambda>best x.
                      if score_value (significance_score best) < score_value (significance_score x)
                      then x else best) e es))"

section \<open>Example inputs\<close>

definition zero_row :: sentiment_row where
  "zero_row =
     \<lparr> aspect = ''Comfort'', positive_count = 0, negative_count = 0, neutral_count = 0,
       key_positive_terms = None, key_negative_terms = None \<rparr>"

definition civic :: car where
  "civic =
     \<lparr> car_ident = 7, manufacturer = ''Honda'', model = ''Civic'', year = 2022,
       body_type = ''Sedan'' \<rparr>"


text \<open>A row whose positive share, 57.5 percent, is a tie that doubles do not represent.\<close>

definition tie_row :: sentiment_row where
  "tie_row =
     \<lparr> aspect = ''Value'', positive_count = 23, negative_count = 17, neutral_count = 0,
       key_positive_terms = None, key_negative_terms = None \<rparr>"

text \<open>The state the component starts in (its \<^verbatim>\<open>useState\<close> initial values); \<^verbatim>\<open>carData\<close>
  stays \<^verbatim>\<open>null\<close> when the request for the car fails.\<close>

definition initial_state :: chat_state where
  "initial_state =
     \<lparr> messages =
         [ (plain_message
              ([CHR 0xF0, CHR 0x9F, CHR 0x91, CHR 0x8B]
                 @ '' Hello! I'm your AI automotive expert. How can I help you explore this vehicle?'')
              AI)
           \<lparr> suggestions :=
               Some [ ''What's the fuel economy like?'',
                      ''Tell me about the engine specs'',
                      ''How does it compare to competitors?'',
                      ''What are the safety features?'',
                      ''Is this car reliable?'' ] \<rparr> ],
       input = [], loading = False, showSuggestions = True, carData_of = None,
       typingEffect = False, currentTypingText = [], fullResponseText = [],
       errorState = \<lparr> hasError = False, retryCount = 0 \<rparr> \<rparr>"

definition zero_rating_reply :: chat_data where
  "zero_rating_reply =
     \<lparr> response_text = ''No reviews rate this car yet.'', car_data = None,
       chat_analysis =
         Some \<lparr> category_scores = None, common_pros = None, common_cons = None,
                an_sentiment = None, average_rating = Num (Fin 0) \<rparr>,
       primaryIntent = None \<rparr>"

definition safety_2020 :: timeline_event where
  "safety_2020 =
     \<lparr> ev_car_id = 7, ev_year = 2020, event_type = ''safety'', significance_score = Num (Fin 4) \<rparr>"

definition recall_2020 :: timeline_event where
  "recall_2020 =
     \<lparr> ev_car_id = 7, ev_year = 2020, event_type = ''safety'', significance_score = Num (Fin 2) \<rparr>"

definition engine_2016 :: timeline_event where
  "engine_2016 =
     \<lparr> ev_car_id = 7, ev_year = 2016, event_type = ''performance'',
       significance_score = Num (Fin 3) \<rparr>"

section \<open>Verified properties\<close>

subsection \<open>Intent classifier\<close>

text \<open>The matcher decides what the patterns denote: a pattern tests true on an input exactly
  when some substring of the input, both in canonical case, is a word of the pattern.\<close>

lemma nullable_iff: "nullable r \<longleftrightarrow> [] \<in> lang r"
  by (induction r) (auto intro: star_empty)

lemma lang_seq: "lang (seq r s) = lang (Seq r s)"
  by (auto simp: seq_def)

lemma lang_alt: "lang (alt r s) = lang r \<union> lang s"
  by (auto simp: alt_def)

lemma star_cons_split:
  assumes "x \<in> star A" "x = c # w"
  shows "\<exists>u v. w = u @ v \<and> c # u \<in> A \<and> v \<in> star A"
  using assms
proof (induction x rule: star.induct)
  case star_empty
  then show ?case by simp
next
  case (star_step u v)
  show ?case
  proof (cases u)
    case Nil
    then have "v = c # w" using star_step.prems by simp
    then show ?thesis using star_step.IH by blast
  next
    case (Cons a u')
    then have "a = c" and "w = u' @ v" using star_step.prems by simp_all
    then show ?thesis using star_step.hyps Cons by blast
  qed
qed

lemma star_cons_iff:
  "c # w \<in> star A \<longleftrightarrow> (\<exists>u v. w = u @ v \<and> c # u \<in> A \<and> v \<in> star A)"
proof
  assume "c # w \<in> star A"
  then show "\<exists>u v. w = u @ v \<and> c # u \<in> A \<and> v \<in> star A"
    using star_cons_split by blast
next
  assume "\<exists>u v. w = u @ v \<and> c # u \<in> A \<and> v \<in> star A"
  then obtain u v where "w = u @ v" "c # u \<in> A" "v \<in> star A" by blast
  then show "c # w \<in> star A" using star_step [of "c # u" A v] by simp
qed

lemma lang_deriv: "w \<in> lang (deriv c r) \<longleftrightarrow> c # w \<in> lang r"
proof (induction r arbitrary: w)
  case (Seq r s)
  have "c # w \<in> lang (Seq r s)
      \<longleftrightarrow> ([] \<in> lang r \<and> c # w \<in> lang s) \<or> (\<exists>u v. w = u @ v \<and> c # u \<in> lang r \<and> v \<in> lang s)"
    by (auto simp: Cons_eq_append_conv)
  then show ?case
    using Seq by (auto simp: lang_alt lang_seq nullable_iff)
next
  case (Star r)
  then show ?case by (auto simp: lang_seq star_cons_iff)
qed (auto simp: lang_alt)

lemma match_prefix_iff: "match_prefix r s \<longleftrightarrow> (\<exists>u v. s = u @ v \<and> u \<in> lang r)"
proof (induction s arbitrary: r)
  case Nil
  then show ?case by (simp add: nullable_iff)
next
  case (Cons c cs)
  have "(\<exists>u v. c # cs = u @ v \<and> u \<in> lang r)
      \<longleftrightarrow> [] \<in> lang r \<or> (\<exists>u v. cs = u @ v \<and> c # u \<in> lang r)"
    by (auto simp: Cons_eq_append_conv)
  then show ?case using Cons by (simp add: nullable_iff lang_deriv)
qed

lemma match_anywhere_iff: "match_anywhere r s \<longleftrightarrow> has_match r s"
proof (induction s)
  case Nil
  then show ?case by (simp add: has_match_def match_prefix_iff)
next
  case (Cons c cs)
  have "has_match r (c # cs) \<longleftrightarrow> (\<exists>u v. c # cs = u @ v \<and> u \<in> lang r) \<or> has_match r cs"
    unfolding has_match_def
  proof
    assume "\<exists>t u v. c # cs = t @ u @ v \<and> u \<in> lang r"
    then obtain t u v where e: "c # cs = t @ u @ v" and m: "u \<in> lang r" by blast
    show "(\<exists>u v. c # cs = u @ v \<and> u \<in> lang r) \<or> (\<exists>t u v. cs = t @ u @ v \<and> u \<in> lang r)"
    proof (cases t)
      case Nil
      then show ?thesis using e m by auto
    next
      case (Cons a t')
      then have "cs = t' @ u @ v" using e by simp
      then show ?thesis using m by blast
    qed
  next
    assume "(\<exists>u v. c # cs = u @ v \<and> u \<in> lang r) \<or> (\<exists>t u v. cs = t @ u @ v \<and> u \<in> lang r)"
    then show "\<exists>t u v. c # cs = t @ u @ v \<and> u \<in> lang r"
    proof
      assume "\<exists>u v. c # cs = u @ v \<and> u \<in> lang r"
      then obtain u v where "c # cs = [] @ u @ v" "u \<in> lang r" by auto
      then show ?thesis by blast
    next
      assume "\<exists>t u v. cs = t @ u @ v \<and> u \<in> lang r"
      then obtain t u v where "c # cs = (c # t) @ u @ v" "u \<in> lang r" by auto
      then show ?thesis by blast
    qed
  qed
  then show ?case using Cons by (simp add: match_prefix_iff)
qed

lemma rx_test_iff: "rx_test r s \<longleftrightarrow> has_match (canonicalize r) (map toUpper_char s)"
  by (simp add: rx_test_def match_anywhere_iff)

lemma classify_examples:
  "determineVisualizationType (Str ''compare Model X to Model Y'') = Some Comparison"
  "determineVisualizationType (Str ''How has the Civic changed?'') = Some Trend"
  "determineVisualizationType (Str ''Is the safety any good?'') = Some Sentiment"
  "determineVisualizationType (Str ''What colours are there?'') = None"
  "determineVisualizationType (Str []) = None"
  "determineVisualizationType Undefined = None"
  by code_simp+








subsection \<open>Knowledge data fetchers\<close>

lemma awaited_failed: "query_failed out \<Longrightarrow> \<exists>e. awaited out = Inl e"
  by (auto simp: query_failed_def awaited_def split: outcome.splits option.splits)

lemma try_catch_returns: "\<exists>v. try_catch body (\<lambda>e. Inr d) = Inr v"
  by (cases body) (simp_all add: try_catch_def)

lemma getCarRelationships_returns: "\<exists>rels. getCarRelationships rel_out = Inr rels"
  unfolding getCarRelationships_def by (rule try_catch_returns)

text \<open>
  Claim C7. When the store query fails (the promise rejects, or it resolves with an error),
  each of the four fetchers returns the empty list, the features fetcher the empty mapping;
  and no fetcher ever throws, whatever the outcome of the query.
\<close>

theorem fetchers_fail_closed:
  "(query_failed rel_out \<longrightarrow> getCarRelationships rel_out = Inr [])
   \<and> (query_failed feat_out \<longrightarrow> getCarFeatures carIds feat_out = Inr Map.empty)
   \<and> (query_failed time_out \<longrightarrow> getCarTimeline time_out = Inr (Some []))
   \<and> (query_failed sent_out \<longrightarrow> getReviewSentiment sent_out = Inr [])
   \<and> (\<exists>v. getCarRelationships rel_out = Inr v)
   \<and> (\<exists>v. getCarFeatures carIds feat_out = Inr v)
   \<and> (\<exists>v. getCarTimeline time_out = Inr v)
   \<and> (\<exists>v. getReviewSentiment sent_out = Inr v)"
proof (intro conjI impI)
  assume "query_failed rel_out"
  then obtain e where "awaited rel_out = Inl e" using awaited_failed by blast
  then show "getCarRelationships rel_out = Inr []"
    by (simp add: getCarRelationships_def try_catch_def)
next
  assume "query_failed feat_out"
  then obtain e where "awaited feat_out = Inl e" using awaited_failed by blast
  then show "getCarFeatures carIds feat_out = Inr Map.empty"
    by (simp add: getCarFeatures_def try_catch_def)
next
  assume "query_failed time_out"
  then obtain e where "awaited time_out = Inl e" using awaited_failed by blast
  then show "getCarTimeline time_out = Inr (Some [])"
    by (simp add: getCarTimeline_def try_catch_def)
next
  assume "query_failed sent_out"
  then obtain e where "awaited sent_out = Inl e" using awaited_failed by blast
  then show "getReviewSentiment sent_out = Inr []"
    by (simp add: getReviewSentiment_def try_catch_def)
next
  show "\<exists>v. getCarRelationships rel_out = Inr v"
    by (rule getCarRelationships_returns)
next
  show "\<exists>v. getCarFeatures carIds feat_out = Inr v"
    unfolding getCarFeatures_def by (rule try_catch_returns)
next
  show "\<exists>v. getCarTimeline time_out = Inr v"
    unfolding getCarTimeline_def by (rule try_catch_returns)
next
  show "\<exists>v. getReviewSentiment sent_out = Inr v"
    unfolding getReviewSentiment_def by (rule try_catch_returns)
qed

theorem fetchers_fail_closed_witness:
  "query_failed (Rejected (StoreError ''timeout'') :: relationship_row outcome)
   \<and> getCarRelationships (Rejected (StoreError ''timeout'')) = Inr []
   \<and> query_failed (Resolved (Response None (Some (StoreError ''permission denied''))) :: feature_row outcome)
   \<and> getCarFeatures [1, 2] (Resolved (Response None (Some (StoreError ''permission denied'')))) = Inr Map.empty
   \<and> query_failed (Resolved (Response (Some []) (Some (StoreError ''relation missing''))) :: timeline_event outcome)
   \<and> getCarTimeline (Resolved (Response (Some []) (Some (StoreError ''relation missing'')))) = Inr (Some [])
   \<and> query_failed (Rejected TypeError :: sentiment_row outcome)
   \<and> getReviewSentiment (Rejected TypeError) = Inr []"
  using fetchers_fail_closed [of "Rejected (StoreError ''timeout'')"
      "Resolved (Response None (Some (StoreError ''permission denied'')))" "[1, 2]"
      "Resolved (Response (Some []) (Some (StoreError ''relation missing'')))"
      "Rejected TypeError"]
  by (simp add: query_failed_def)

text \<open>
  Claim C6. For a sentiment row whose three counts are all 0 the division by the zero total
  yields \<^verbatim>\<open>NaN\<close>, which \<^verbatim>\<open>|| 0\<close> turns into 0: the positive and negative percentages
  (and the neutral one) are 0, and the fetcher returns normally.
\<close>

theorem zero_counts_zero_percent:
  "positive_count item = 0 \<and> negative_count item = 0 \<and> neutral_count item = 0
   \<longrightarrow> positive (format_sentiment item) = Num (Fin 0)
       \<and> negative (format_sentiment item) = Num (Fin 0)
       \<and> neutral (format_sentiment item) = Num (Fin 0)
       \<and> getReviewSentiment (Resolved (Response (Some [item]) None)) = Inr [format_sentiment item]"
  by (simp add: format_sentiment_def percentage_def total_count_def Number_of_def to_double_def
      js_or_def getReviewSentiment_def try_catch_def awaited_def)

theorem zero_counts_zero_percent_witness:
  "positive_count zero_row = 0 \<and> negative_count zero_row = 0 \<and> neutral_count zero_row = 0
   \<and> positive (format_sentiment zero_row) = Num (Fin 0)
   \<and> negative (format_sentiment zero_row) = Num (Fin 0)
   \<and> getReviewSentiment (Resolved (Response (Some [zero_row]) None)) = Inr [format_sentiment zero_row]"
  using zero_counts_zero_percent [of zero_row] by (simp add: zero_row_def)

subsection \<open>Relationship shaping\<close>

text \<open>
  Claim C9. Relationship shaping never fails. Its node list is the node of the primary
  entity followed by one node per fetched relationship, so its length is one more than the
  number of relationships; its link list has one link per relationship, in order, whose
  source is the id of the primary entity and whose target, type and strength are those of
  the relationship.
\<close>

theorem relationship_shape:
  "\<exists>rels p.
     getCarRelationships rel_out = Inr rels
     \<and> generateVisualizationData_relationship carData rel_out = Inr p
     \<and> length (nodes p) = 1 + length rels
     \<and> hd (nodes p) = \<lparr> node_id = car_ident carData, node_label = display_name carData,
                          node_type = ''primary'' \<rparr>
     \<and> map node_id (tl (nodes p)) = map rel_id rels
     \<and> length (links p) = length rels
     \<and> map source (links p) = replicate (length rels) (car_ident carData)
     \<and> map target (links p) = map rel_id rels
     \<and> map link_type (links p) = map rel_type rels
     \<and> map strength (links p) = map rel_strength rels"
proof -
  obtain rels where r: "getCarRelationships rel_out = Inr rels"
    using getCarRelationships_returns by blast
  show ?thesis
    unfolding generateVisualizationData_relationship_def r
    by (simp add: comp_def map_replicate_const)
qed

subsection \<open>Suggestion generator\<close>

lemma sublist_mid: "sublist n (a @ n @ b)"
  unfolding sublist_def by blast

lemma sublist_end: "sublist n (a @ n)"
  unfolding sublist_def by (metis append_Nil2)

text \<open>
  Claim C8. For an entity and a conversation length of at most 2 the suggestion generator
  returns exactly 5 suggestions, and the display name of the entity (year, manufacturer and
  model, separated by spaces) is a substring of each; for the 2022 Honda Civic the display
  name is \<open>2022 Honda Civic\<close>.
\<close>

theorem early_suggestions:
  "(conversationLength ctx \<le> 2 \<and> ctx_carData ctx = Some c
      \<longrightarrow> length (generateSuggestions ctx) = 5
          \<and> (\<forall>s\<in>set (generateSuggestions ctx). sublist (display_name c) s))
   \<and> (year c = 2022 \<and> manufacturer c = ''Honda'' \<and> model c = ''Civic''
      \<longrightarrow> display_name c = ''2022 Honda Civic'')"
proof (intro conjI impI)
  assume h: "conversationLength ctx \<le> 2 \<and> ctx_carData ctx = Some c"
  then show "length (generateSuggestions ctx) = 5"
    by (simp add: generateSuggestions_def Let_def)
  have "generateSuggestions ctx =
      [ ''What's the fuel economy like for the '' @ display_name c @ ''?'',
        ''Tell me about the engine in the '' @ display_name c,
        ''How comfortable is the '' @ display_name c @ ''?'',
        ''What are the safety features in the '' @ display_name c @ ''?'',
        ''Is the '' @ display_name c @ '' reliable?'' ]"
    using h by (simp add: generateSuggestions_def Let_def)
  then show "\<forall>s\<in>set (generateSuggestions ctx). sublist (display_name c) s"
    using sublist_mid [of "display_name c"] sublist_end [of "display_name c"]
    by (simp del: append.simps)
next
  assume "year c = 2022 \<and> manufacturer c = ''Honda'' \<and> model c = ''Civic''"
  moreover have "toString 2022 = ''2022''" by code_simp
  ultimately show "display_name c = ''2022 Honda Civic''"
    by (simp add: display_name_def)
qed

theorem early_suggestions_witness:
  "conversationLength \<lparr> ctx_carData = Some civic, ctx_intent = None, conversationLength = 1 \<rparr> \<le> 2
   \<and> ctx_carData \<lparr> ctx_carData = Some civic, ctx_intent = None, conversationLength = 1 \<rparr> = Some civic
   \<and> year civic = 2022 \<and> manufacturer civic = ''Honda'' \<and> model civic = ''Civic''
   \<and> display_name civic = ''2022 Honda Civic''
   \<and> length (generateSuggestions
         \<lparr> ctx_carData = Some civic, ctx_intent = None, conversationLength = 1 \<rparr>) = 5
   \<and> list_all (sublist ''2022 Honda Civic'')
        (generateSuggestions \<lparr> ctx_carData = Some civic, ctx_intent = None, conversationLength = 1 \<rparr>)"
proof -
  let ?ctx = "\<lparr> ctx_carData = Some civic, ctx_intent = None, conversationLength = 1 \<rparr>"
  have a: "conversationLength ?ctx \<le> 2 \<and> ctx_carData ?ctx = Some civic" by simp
  have b: "year civic = 2022 \<and> manufacturer civic = ''Honda'' \<and> model civic = ''Civic''"
    by (simp add: civic_def)
  note t = early_suggestions [of ?ctx civic]
  have n: "display_name civic = ''2022 Honda Civic''"
    using t b by blast
  have l: "length (generateSuggestions ?ctx) = 5"
    and s: "\<forall>s\<in>set (generateSuggestions ?ctx). sublist (display_name civic) s"
    using t a by blast+
  have "list_all (sublist ''2022 Honda Civic'') (generateSuggestions ?ctx)"
    using s unfolding n list_all_iff .
  then show ?thesis using a b n l by blast
qed

subsection \<open>Conversation orchestrator\<close>

text \<open>
  Claim C10. When the reply to a submitted message carries an analysis object, the AI message
  appended for it has a rating card exactly when \<^verbatim>\<open>analysis.average_rating\<close> is truthy; an
  average rating of 0 attaches no rating card.
\<close>

theorem rating_card_iff_truthy:
  "\<not> blank t \<and> chat_analysis d = Some a
   \<longrightarrow> (has_rating_card (last (messages (handleSend t (Replied d) st)))
          \<longleftrightarrow> truthy (average_rating a))
       \<and> (average_rating a = Num (Fin 0)
          \<longrightarrow> \<not> has_rating_card (last (messages (handleSend t (Replied d) st))))"
proof (intro impI)
  assume h: "\<not> blank t \<and> chat_analysis d = Some a"
  have l: "components (last (messages (handleSend t (Replied d) st)))
      = Some (response_components d (messages st))"
    using h by (simp add: handleSend_def Let_def plain_message_def)
  have "list_ex is_rating (response_components d (messages st)) = truthy (average_rating a)"
    using h by (simp add: response_components_def split: option.splits)
  then have iff: "has_rating_card (last (messages (handleSend t (Replied d) st)))
      \<longleftrightarrow> truthy (average_rating a)"
    by (simp add: has_rating_card_def l)
  show "(has_rating_card (last (messages (handleSend t (Replied d) st)))
          \<longleftrightarrow> truthy (average_rating a))
       \<and> (average_rating a = Num (Fin 0)
          \<longrightarrow> \<not> has_rating_card (last (messages (handleSend t (Replied d) st))))"
    using iff by auto
qed

theorem rating_card_iff_truthy_witness:
  "\<not> blank ''How is it rated?''
   \<and> chat_analysis zero_rating_reply
       = Some \<lparr> category_scores = None, common_pros = None, common_cons = None,
                an_sentiment = None, average_rating = Num (Fin 0) \<rparr>
   \<and> \<not> has_rating_card
         (last (messages (handleSend ''How is it rated?'' (Replied zero_rating_reply) initial_state)))"
proof -
  let ?a = "\<lparr> category_scores = None, common_pros = None, common_cons = None,
                an_sentiment = None, average_rating = Num (Fin 0) \<rparr>"
  have a: "\<not> blank ''How is it rated?''" by (simp add: blank_def is_whitespace_def)
  have b: "chat_analysis zero_rating_reply = Some ?a" by (simp add: zero_rating_reply_def)
  have c: "average_rating ?a = Num (Fin 0)" by simp
  from rating_card_iff_truthy [of "''How is it rated?''" zero_rating_reply ?a initial_state] a b c
  have "\<not> has_rating_card
         (last (messages (handleSend ''How is it rated?'' (Replied zero_rating_reply) initial_state)))"
    by blast
  with a b show ?thesis by blast
qed

subsection \<open>Sentiment percentages\<close>

text \<open>Rounding to the nearest integer, a tie going to the even one.\<close>

lemma round_half_even_ge_floor: "\<lfloor>z\<rfloor> \<le> round_half_even z"
  by (simp add: round_half_even_def Let_def)

lemma round_half_even_near: "\<bar>of_int (round_half_even z) - z\<bar> \<le> 1 / 2"
proof -
  have "of_int \<lfloor>z\<rfloor> \<le> z" "z < of_int \<lfloor>z\<rfloor> + 1" by linarith+
  then show ?thesis
    by (auto simp: round_half_even_def Let_def abs_le_iff)
qed

lemma round_half_even_le:
  assumes "z \<le> of_int k"
  shows "round_half_even z \<le> k"
proof -
  have f: "\<lfloor>z\<rfloor> \<le> k" using assms by (simp add: floor_le_iff)
  show ?thesis
  proof (cases "\<lfloor>z\<rfloor> = k")
    case True
    have "of_int \<lfloor>z\<rfloor> \<le> z" by simp
    then have "z = of_int k" using assms True by simp
    then show ?thesis by (simp add: round_half_even_def Let_def)
  next
    case False
    then have "\<lfloor>z\<rfloor> + 1 \<le> k" using f by simp
    moreover have "round_half_even z \<le> \<lfloor>z\<rfloor> + 1"
      by (simp add: round_half_even_def Let_def)
    ultimately show ?thesis by simp
  qed
qed

lemma round_half_even_ge:
  assumes "of_int k \<le> z"
  shows "k \<le> round_half_even z"
proof -
  have "k \<le> \<lfloor>z\<rfloor>" using assms by (simp add: le_floor_iff)
  then show ?thesis using round_half_even_ge_floor [of z] by simp
qed

lemma round_half_even_unique:
  assumes "\<bar>z - of_int m\<bar> < 1 / 2"
  shows "round_half_even z = m"
proof -
  have "\<bar>(of_int (round_half_even z) :: rat) - of_int m\<bar> < 1"
    using round_half_even_near [of z] assms by linarith
  then have "\<bar>(of_int (round_half_even z - m) :: rat)\<bar> < of_int 1" by simp
  then have "\<bar>round_half_even z - m\<bar> < 1"
    unfolding of_int_abs [symmetric] of_int_less_iff .
  then show ?thesis by simp
qed

lemma exponent_bounds:
  assumes "x \<noteq> 0"
  shows "2 powi (exponent x) \<le> \<bar>x\<bar>" and "\<bar>x\<bar> < 2 powi (exponent x + 1)"
proof -
  have both: "2 powi (exponent x) \<le> \<bar>x\<bar> \<and> \<bar>x\<bar> < 2 powi (exponent x + 1)"
  proof (cases "1 \<le> \<bar>x\<bar>")
    case True
    define a where "a = \<lfloor>\<bar>x\<bar>\<rfloor>"
    have a1: "1 \<le> a" using True by (simp add: a_def)
    then have apos: "0 < a" by simp
    define b where "b = bitlen a"
    have bb: "2 ^ nat (b - 1) \<le> a" "a < 2 ^ nat b"
      using bitlen_bounds [OF apos] by (simp_all add: b_def)
    have b1: "1 \<le> b"
    proof (rule ccontr)
      assume "\<not> 1 \<le> b"
      then have "nat b = 0" by simp
      then show False using bb(2) a1 by simp
    qed
    have e: "exponent x = b - 1" using True by (simp add: exponent_def a_def b_def)
    have "(2 :: rat) powi (b - 1) = 2 ^ nat (b - 1)" using b1 by (simp add: power_int_def)
    also have "\<dots> = of_int (2 ^ nat (b - 1))" by simp
    also have "\<dots> \<le> of_int a" using bb(1) unfolding of_int_le_iff .
    also have "\<dots> \<le> \<bar>x\<bar>" by (simp add: a_def)
    finally have l: "2 powi (b - 1) \<le> \<bar>x\<bar>" .
    have "\<bar>x\<bar> < of_int a + 1" by (simp add: a_def) linarith
    also have "\<dots> = of_int (a + 1)" by simp
    also have "\<dots> \<le> of_int (2 ^ nat b)" using bb(2) unfolding of_int_le_iff by simp
    also have "\<dots> = (2 :: rat) powi b" using b1 by (simp add: power_int_def)
    finally have u: "\<bar>x\<bar> < 2 powi b" .
    show ?thesis using l u by (simp add: e)
  next
    case False
    then have x1: "\<bar>x\<bar> < 1" by simp
    have xpos: "0 < \<bar>x\<bar>" using assms by simp
    define w where "w = 1 / \<bar>x\<bar>"
    have w1: "1 < w" using x1 xpos by (simp add: w_def)
    define m where "m = \<lceil>w\<rceil> - 1"
    have mw: "of_int m < w" "w \<le> of_int m + 1"
      unfolding m_def by (simp_all add: ceiling_correct)
    have m1: "1 \<le> m"
    proof -
      have "(1 :: rat) < of_int m + 1" using w1 mw(2) by linarith
      then have "(of_int 0 :: rat) < of_int m" by simp
      then have "0 < m" unfolding of_int_less_iff .
      then show ?thesis by simp
    qed
    then have mpos: "0 < m" by simp
    define b where "b = bitlen m"
    have bb: "2 ^ nat (b - 1) \<le> m" "m < 2 ^ nat b"
      using bitlen_bounds [OF mpos] by (simp_all add: b_def)
    have b1: "1 \<le> b"
    proof (rule ccontr)
      assume "\<not> 1 \<le> b"
      then have "nat b = 0" by simp
      then show False using bb(2) m1 by simp
    qed
    have e: "exponent x = - b" using False by (simp add: exponent_def m_def w_def b_def)
    have xw: "\<bar>x\<bar> = 1 / w" using xpos by (simp add: w_def)
    have "w \<le> of_int (m + 1)" using mw(2) by simp
    also have "\<dots> \<le> of_int (2 ^ nat b)" using bb(2) unfolding of_int_le_iff by simp
    also have "\<dots> = (2 :: rat) ^ nat b" by simp
    finally have wu: "w \<le> 2 ^ nat b" .
    have "(2 :: rat) ^ nat (b - 1) = of_int (2 ^ nat (b - 1))" by simp
    also have "\<dots> \<le> of_int m" using bb(1) unfolding of_int_le_iff .
    also have "\<dots> < w" by (rule mw(1))
    finally have wl: "2 ^ nat (b - 1) < w" .
    have wpos: "0 < w" using w1 by simp
    have "(2 :: rat) powi (- b) = 1 / 2 ^ nat b"
      using b1 by (simp add: power_int_def field_simps)
    also have "\<dots> \<le> 1 / w" using wu wpos by (simp add: frac_le)
    finally have l: "2 powi (- b) \<le> \<bar>x\<bar>" unfolding xw .
    have "1 / w < 1 / (2 :: rat) ^ nat (b - 1)"
      using wl wpos by (intro divide_strict_left_mono) simp_all
    also have "\<dots> = (2 :: rat) powi (- b + 1)"
    proof (cases "b = 1")
      case True
      then show ?thesis by simp
    next
      case False
      then have "- b + 1 < 0" using b1 by simp
      moreover have "nat (- (- b + 1)) = nat (b - 1)" by simp
      ultimately show ?thesis by (simp add: power_int_def field_simps)
    qed
    finally have u: "\<bar>x\<bar> < 2 powi (- b + 1)" unfolding xw .
    show ?thesis using l u by (simp add: e)
  qed
  show "2 powi (exponent x) \<le> \<bar>x\<bar>" using both by blast
  show "\<bar>x\<bar> < 2 powi (exponent x + 1)" using both by blast
qed

lemma pow2_less_cancel:
  assumes "(2 :: rat) powi a < 2 powi b"
  shows "a < b"
proof (rule ccontr)
  assume "\<not> a < b"
  then have "b \<le> a" by simp
  then have "(2 :: rat) powi b \<le> 2 powi a" by (intro power_int_increasing) simp_all
  then show False using assms by simp
qed

lemma exponent_unique:
  assumes "2 powi e \<le> \<bar>x\<bar>" "\<bar>x\<bar> < 2 powi (e + 1)"
  shows "exponent x = e"
proof -
  have "(0 :: rat) < 2 powi e" by simp
  then have "0 < \<bar>x\<bar>" using assms(1) by linarith
  then have x0: "x \<noteq> 0" by simp
  note b = exponent_bounds [OF x0]
  have "(2 :: rat) powi e < 2 powi (exponent x + 1)" using assms(1) b(2) by linarith
  then have 1: "e < exponent x + 1" by (rule pow2_less_cancel)
  have "(2 :: rat) powi (exponent x) < 2 powi (e + 1)" using assms(2) b(1) by linarith
  then have 2: "exponent x < e + 1" by (rule pow2_less_cancel)
  show ?thesis using 1 2 by simp
qed

lemma pow2_split:
  assumes "a \<le> b"
  shows "(2 :: rat) powi b = of_int (2 ^ nat (b - a)) * 2 powi a"
proof -
  have "(2 :: rat) powi b = 2 powi ((b - a) + a)" by simp
  also have "\<dots> = 2 powi (b - a) * 2 powi a" by (rule power_int_add) simp
  also have "(2 :: rat) powi (b - a) = 2 ^ nat (b - a)" using assms by (simp add: power_int_def)
  finally show ?thesis by simp
qed

lemma to_double_near:
  assumes x0: "x \<noteq> 0" and xk: "\<bar>x\<bar> < 2 powi (k + 1)" and k: "- 1022 \<le> k" "k \<le> 1022"
  shows "\<exists>y. to_double x = Fin y \<and> \<bar>y - x\<bar> \<le> 2 powi (k - 53)
           \<and> (\<forall>j :: int. (x \<le> of_int j * 2 powi (k - 52) \<longrightarrow> y \<le> of_int j * 2 powi (k - 52))
                 \<and> (of_int j * 2 powi (k - 52) \<le> x \<longrightarrow> of_int j * 2 powi (k - 52) \<le> y))"
proof -
  define e where "e = max (exponent x) (- 1022)"
  define ulp :: rat where "ulp = 2 powi (e - 52)"
  define r where "r = round_half_even (x / ulp)"
  define y :: rat where "y = of_int r * ulp"
  have "(2 :: rat) powi (exponent x) < 2 powi (k + 1)"
    using exponent_bounds(1) [OF x0] xk by linarith
  then have "exponent x < k + 1" by (rule pow2_less_cancel)
  then have ek: "e \<le> k" using k by (simp add: e_def)
  have up: "0 < ulp" by (simp add: ulp_def)
  define N :: int where "N = 2 ^ nat (k - e)"
  have g: "(2 :: rat) powi (k - 52) = of_int N * ulp"
    unfolding N_def ulp_def using pow2_split [of "e - 52" "k - 52"] ek by simp
  have mono: "(x \<le> of_int j * 2 powi (k - 52) \<longrightarrow> y \<le> of_int j * 2 powi (k - 52))
      \<and> (of_int j * 2 powi (k - 52) \<le> x \<longrightarrow> of_int j * 2 powi (k - 52) \<le> y)" for j :: int
  proof (intro conjI impI)
    assume "x \<le> of_int j * 2 powi (k - 52)"
    then have "x \<le> of_int (j * N) * ulp" by (simp add: g mult.assoc)
    then have "x / ulp \<le> of_int (j * N)" using up by (simp add: divide_le_eq)
    then have "r \<le> j * N" unfolding r_def by (rule round_half_even_le)
    then have "(of_int r :: rat) \<le> of_int (j * N)" unfolding of_int_le_iff .
    then have "of_int r * ulp \<le> of_int (j * N) * ulp" using up by (intro mult_right_mono) simp_all
    then show "y \<le> of_int j * 2 powi (k - 52)" by (simp add: y_def g mult.assoc)
  next
    assume "of_int j * 2 powi (k - 52) \<le> x"
    then have "of_int (j * N) * ulp \<le> x" by (simp add: g mult.assoc)
    then have "of_int (j * N) \<le> x / ulp" using up by (simp add: le_divide_eq)
    then have "j * N \<le> r" unfolding r_def by (rule round_half_even_ge)
    then have "(of_int (j * N) :: rat) \<le> of_int r" unfolding of_int_le_iff .
    then have "of_int (j * N) * ulp \<le> of_int r * ulp" using up by (intro mult_right_mono) simp_all
    then show "of_int j * 2 powi (k - 52) \<le> y" by (simp add: y_def g mult.assoc)
  qed
  have "\<bar>of_int r - x / ulp\<bar> \<le> 1 / 2" unfolding r_def by (rule round_half_even_near)
  then have "\<bar>of_int r - x / ulp\<bar> * ulp \<le> 1 / 2 * ulp" using up by (intro mult_right_mono) simp_all
  moreover have "\<bar>of_int r - x / ulp\<bar> * ulp = \<bar>y - x\<bar>"
  proof -
    have "\<bar>of_int r - x / ulp\<bar> * ulp = \<bar>of_int r - x / ulp\<bar> * \<bar>ulp\<bar>" using up by simp
    also have "\<dots> = \<bar>(of_int r - x / ulp) * ulp\<bar>" by (simp add: abs_mult)
    also have "(of_int r - x / ulp) * ulp = y - x" using up by (simp add: y_def left_diff_distrib)
    finally show ?thesis .
  qed
  ultimately have err: "\<bar>y - x\<bar> \<le> ulp / 2" by simp
  have "ulp / 2 = 2 powi (e - 53)"
  proof -
    have "(2 :: rat) powi (e - 52) = 2 powi ((e - 53) + 1)" by simp
    also have "\<dots> = 2 powi (e - 53) * 2 powi 1" by (rule power_int_add) simp
    finally show ?thesis by (simp add: ulp_def)
  qed
  also have "\<dots> \<le> 2 powi (k - 53)" using ek by (intro power_int_increasing) simp_all
  finally have err2: "\<bar>y - x\<bar> \<le> 2 powi (k - 53)" using err by linarith
  have top: "(2 :: rat) powi (k + 1) = of_int (2 ^ 53) * 2 powi (k - 52)"
    using pow2_split [of "k - 52" "k + 1"] by simp
  have "x \<le> of_int (2 ^ 53) * 2 powi (k - 52)" using xk top by linarith
  then have yu: "y \<le> 2 powi (k + 1)" using mono [of "2 ^ 53"] top by simp
  have "of_int (- (2 ^ 53)) * 2 powi (k - 52) \<le> x" using xk top by simp
  then have "of_int (- (2 ^ 53)) * 2 powi (k - 52) \<le> y" using mono [of "- (2 ^ 53)"] by blast
  then have yl: "- (2 powi (k + 1)) \<le> y" using top by simp
  have "(2 :: rat) powi (k + 1) < 2 powi 1024" using k by (intro power_int_strict_increasing) simp_all
  then have fin: "\<not> 2 powi 1024 \<le> y" "\<not> y \<le> - (2 powi 1024)" using yu yl by linarith+
  have "to_double x = Fin y"
    using x0 fin by (simp add: to_double_def Let_def e_def [symmetric] ulp_def [symmetric]
        r_def [symmetric] y_def [symmetric])
  then show ?thesis using err2 mono by blast
qed

lemma to_double_exact:
  assumes "x = of_int j * 2 powi (k - 52)" "\<bar>x\<bar> < 2 powi (k + 1)" "- 1022 \<le> k" "k \<le> 1022"
  shows "to_double x = Fin x"
proof (cases "x = 0")
  case True
  then show ?thesis by (simp add: to_double_def)
next
  case False
  from to_double_near [OF False assms(2,3,4)]
  obtain y where y: "to_double x = Fin y"
    and m: "\<forall>j :: int. (x \<le> of_int j * 2 powi (k - 52) \<longrightarrow> y \<le> of_int j * 2 powi (k - 52))
                 \<and> (of_int j * 2 powi (k - 52) \<le> x \<longrightarrow> of_int j * 2 powi (k - 52) \<le> y)"
    by blast
  have "y \<le> x" "x \<le> y" using m [rule_format, of j] assms(1) by simp_all
  then show ?thesis using y by simp
qed

lemma to_double_nearest:
  assumes lo: "2 powi e \<le> \<bar>x\<bar>" and hi: "\<bar>x\<bar> < 2 powi (e + 1)" and e: "- 1022 \<le> e" "e \<le> 1022"
    and near: "\<bar>x - of_int m * 2 powi (e - 52)\<bar> < 2 powi (e - 53)"
  shows "to_double x = Fin (of_int m * 2 powi (e - 52))"
proof -
  have "(0 :: rat) < 2 powi e" by simp
  then have "0 < \<bar>x\<bar>" using lo by linarith
  then have x0: "x \<noteq> 0" by simp
  have ex: "exponent x = e" using lo hi by (rule exponent_unique)
  define ulp :: rat where "ulp = 2 powi (e - 52)"
  have up: "0 < ulp" by (simp add: ulp_def)
  have half: "(2 :: rat) powi (e - 53) = ulp / 2"
  proof -
    have "(2 :: rat) powi (e - 52) = 2 powi ((e - 53) + 1)" by simp
    also have "\<dots> = 2 powi (e - 53) * 2 powi 1" by (rule power_int_add) simp
    finally show ?thesis by (simp add: ulp_def)
  qed
  have "\<bar>x / ulp - of_int m\<bar> = \<bar>(x - of_int m * ulp) / ulp\<bar>"
    using up by (simp add: diff_divide_distrib)
  also have "\<dots> = \<bar>x - of_int m * ulp\<bar> / ulp" using up by simp
  also have "\<dots> < (ulp / 2) / ulp"
    using near up unfolding half ulp_def [symmetric] by (intro divide_strict_right_mono) simp_all
  also have "\<dots> = 1 / 2" using up by simp
  finally have "round_half_even (x / ulp) = m" by (rule round_half_even_unique)
  then have u: "to_double x =
      (if 2 powi 1024 \<le> of_int m * ulp then Infinity
       else if of_int m * ulp \<le> - (2 powi 1024) then NegInfinity
       else Fin (of_int m * ulp))"
    using x0 e by (simp add: to_double_def Let_def ex ulp_def max_def)
  obtain y where "to_double x = Fin y" using to_double_near [OF x0 hi e] by blast
  then show ?thesis using u by (simp add: ulp_def split: if_splits)
qed

lemma Number_of_safe:
  assumes "0 \<le> c" "c < 2 ^ 53"
  shows "Number_of c = Fin (of_int c)"
proof -
  have "(of_int c :: rat) < of_int (2 ^ 53)" using assms(2) unfolding of_int_less_iff .
  then have "\<bar>of_int c :: rat\<bar> < 2 powi (52 + 1)" using assms(1) by simp
  moreover have "(of_int c :: rat) = of_int c * 2 powi (52 - 52)" by simp
  ultimately show ?thesis unfolding Number_of_def by (intro to_double_exact [of _ c 52]) simp_all
qed

lemma js_add_safe:
  assumes "0 \<le> a" "0 \<le> b" "a + b < 2 ^ 53"
  shows "js_add (Fin (of_int a)) (Fin (of_int b)) = Fin (of_int (a + b))"
proof -
  have "Number_of (a + b) = Fin (of_int (a + b))" using assms by (intro Number_of_safe) simp_all
  then show ?thesis by (simp add: Number_of_def)
qed

lemma total_count_safe:
  assumes "0 \<le> positive_count item" "0 \<le> negative_count item" "0 \<le> neutral_count item"
    and "positive_count item + negative_count item + neutral_count item < 2 ^ 53"
  shows "total_count item
    = Fin (of_int (positive_count item + negative_count item + neutral_count item))"
proof -
  have "Number_of (positive_count item) = Fin (of_int (positive_count item))"
    "Number_of (negative_count item) = Fin (of_int (negative_count item))"
    "Number_of (neutral_count item) = Fin (of_int (neutral_count item))"
    using assms by (intro Number_of_safe; linarith)+
  moreover have "js_add (Fin (of_int (positive_count item))) (Fin (of_int (negative_count item)))
      = Fin (of_int (positive_count item + negative_count item))"
    using assms by (intro js_add_safe) linarith+
  moreover have "js_add (Fin (of_int (positive_count item + negative_count item)))
        (Fin (of_int (neutral_count item)))
      = Fin (of_int (positive_count item + negative_count item + neutral_count item))"
    using assms by (intro js_add_safe) linarith+
  ultimately show ?thesis by (simp add: total_count_def)
qed

lemma quotient_double:
  fixes x :: rat
  assumes "0 \<le> x" "x \<le> 1"
  shows "\<exists>q. to_double x = Fin q \<and> 0 \<le> q \<and> q \<le> 1 \<and> \<bar>q - x\<bar> \<le> 2 powi (- 54)"
proof (cases "x = 0 \<or> x = 1")
  case True
  then show ?thesis
  proof
    assume "x = 0"
    then show ?thesis by (simp add: to_double_def)
  next
    assume x: "x = 1"
    have "to_double 1 = Fin 1" using to_double_exact [of 1 1 52] by simp
    then show ?thesis using x by simp
  qed
next
  case False
  then have x0: "x \<noteq> 0" and lt: "\<bar>x\<bar> < 2 powi (- 1 + 1)" using assms by simp_all
  from to_double_near [OF x0 lt]
  obtain q where q: "to_double x = Fin q" and err: "\<bar>q - x\<bar> \<le> 2 powi (- 1 - 53)"
    and m: "\<And>j :: int. (x \<le> of_int j * 2 powi (- 1 - 52) \<longrightarrow> q \<le> of_int j * 2 powi (- 1 - 52))
                 \<and> (of_int j * 2 powi (- 1 - 52) \<le> x \<longrightarrow> of_int j * 2 powi (- 1 - 52) \<le> q)"
    by auto
  have one: "of_int (2 ^ 53) * 2 powi (- 1 - 52) = (1 :: rat)" by (simp add: power_int_minus_divide)
  have "0 \<le> q" using m [of 0] assms(1) by simp
  moreover have "q \<le> 1" using m [of "2 ^ 53", unfolded one] assms(2) by blast
  ultimately show ?thesis using q err by simp
qed








text \<open>The double nearest to a quotient or product, checked by its distance.\<close>

lemma percentage_of_doubles:
  assumes t: "total_count item = Fin t" "t \<noteq> 0" and c: "Number_of c = Fin (of_int c)"
    and q: "to_double (of_int c / t) = Fin q" and m: "to_double (q * 100) = Fin m"
    and r: "of_int r \<le> m + 1 / 2" "m + 1 / 2 < of_int r + 1" "r \<noteq> 0"
  shows "percentage c item = Num (Fin (of_int r))"
proof -
  have "\<lfloor>m + 1 / 2\<rfloor> = r" using r(1,2) by (rule floor_unique)
  then show ?thesis using t c q m r(3) by (simp add: percentage_def js_or_def)
qed


text \<open>Where the operations do round: of 23 positive mentions among 40 the quotient is the
  double below 0.575 and its product with 100 the double below 57.5, so the percentage is 57,
  not the 58 of exact arithmetic.\<close>

lemma percentage_rounds_as_doubles:
  "percentage 23 tie_row = Num (Fin 57)"
proof -
  have t: "total_count tie_row = Fin 40"
    using total_count_safe [of tie_row] by (simp add: tie_row_def)
  have n: "Number_of 23 = Fin (of_int 23)" by (rule Number_of_safe) simp_all
  have "to_double (23 / 40) = Fin (of_int 5179139571476070 * 2 powi (- 1 - 52))"
    by (rule to_double_nearest) (simp_all add: power_int_minus_divide)
  then have q: "to_double (of_int 23 / 40) = Fin (2589569785738035 / 4503599627370496)"
    by (simp add: power_int_minus_divide)
  have "to_double (2589569785738035 / 4503599627370496 * 100)
      = Fin (of_int 8092405580431359 * 2 powi (5 - 52))"
    by (rule to_double_nearest) (simp_all add: power_int_minus_divide)
  then have m: "to_double (2589569785738035 / 4503599627370496 * 100)
      = Fin (8092405580431359 / 140737488355328)"
    by (simp add: power_int_minus_divide)
  have "percentage 23 tie_row = Num (Fin (of_int 57))"
    using t _ n q m by (rule percentage_of_doubles) simp_all
  then show ?thesis by simp
qed

subsection \<open>Retry policy of the conversation orchestrator\<close>





subsection \<open>Trend shaping\<close>

lemma set_new_Set: "set (new_Set xs) = set xs"
  by (induction xs rule: new_Set.induct) auto

lemma distinct_new_Set: "distinct (new_Set xs)"
  by (induction xs rule: new_Set.induct) (auto simp: set_new_Set)

lemma find_filter: "find P (filter Q xs) = find (\<lambda>x. Q x \<and> P x) xs"
  by (induction xs) simp_all

lemma truthy_or_null: "truthy v \<Longrightarrow> js_or v Null = v"
  by (simp add: js_or_def)

lemma series_score_first:
  assumes "\<forall>e\<in>set evs. truthy (significance_score e)"
  shows "series_score (filter (\<lambda>item. ev_year item = y) evs) ty = first_score evs y ty"
proof (cases "find (\<lambda>e. ev_year e = y \<and> event_type e = ty) evs")
  case None
  then show ?thesis
    by (simp add: series_score_def first_score_def find_filter js_or_def)
next
  case (Some e)
  then have "e \<in> set evs" by (auto simp: find_Some_iff)
  then have "truthy (significance_score e)" using assms by blast
  then show ?thesis
    using Some by (simp add: series_score_def first_score_def find_filter truthy_or_null)
qed

lemma year_point_first:
  "\<forall>e\<in>set evs. truthy (significance_score e) \<Longrightarrow> year_point evs y = first_point evs y"
  by (simp add: year_point_def first_point_def series_score_first)

lemma digit_char_less: "a < b \<Longrightarrow> b < 10 \<Longrightarrow> digit_char a < digit_char b"
proof -
  assume ab: "a < b" and b: "b < 10"
  have v: "\<And>d. d < 10 \<Longrightarrow> (of_char (digit_char d) :: nat) = 48 + d"
  proof -
    fix d :: nat
    assume "d < 10"
    then have "d \<in> {0, 1, 2, 3, 4, 5, 6, 7, 8, 9}" by auto
    then show "(of_char (digit_char d) :: nat) = 48 + d"
      by (auto simp: digit_char_def)
  qed
  have "a < 10" using ab b by simp
  then show ?thesis using v [of a] v [of b] ab b by (simp add: less_char_def)
qed

lemma toString_small: "n < 10 \<Longrightarrow> toString n = [digit_char n]"
  by (simp add: toString.simps)

lemma toString_large: "10 \<le> n \<Longrightarrow> toString n = toString (n div 10) @ [digit_char (n mod 10)]"
  by (subst toString.simps) simp

lemma length_toString_pos: "0 < length (toString n)"
  by (subst toString.simps) simp

lemma length_toString_one: "length (toString n) = 1 \<longleftrightarrow> n < 10"
proof (cases "n < 10")
  case True
  then show ?thesis by (simp add: toString_small)
next
  case False
  then have "length (toString n) = length (toString (n div 10)) + 1"
    by (simp add: toString_large)
  then show ?thesis using False length_toString_pos [of "n div 10"] by simp
qed

lemma toString_less:
  "length (toString a) = length (toString b) \<Longrightarrow> a < b \<Longrightarrow> toString a < toString b"
proof (induction a arbitrary: b rule: toString.induct)
  case (1 a)
  show ?case
  proof (cases "a < 10")
    case True
    then have "length (toString b) = 1" using "1.prems" by (simp add: toString_small)
    then have "b < 10" using length_toString_one [of b] by simp
    then show ?thesis
      using True "1.prems" digit_char_less [of a b] by (simp add: toString_small list_less_def)
  next
    case False
    then have a10: "10 \<le> a" by simp
    then have b10: "10 \<le> b" using "1.prems" by simp
    have la: "toString a = toString (a div 10) @ [digit_char (a mod 10)]"
      using a10 by (rule toString_large)
    have lb: "toString b = toString (b div 10) @ [digit_char (b mod 10)]"
      using b10 by (rule toString_large)
    have len: "length (toString (a div 10)) = length (toString (b div 10))"
      using "1.prems"(1) unfolding la lb by simp
    have dle: "a div 10 \<le> b div 10"
      using "1.prems"(2) by (simp add: div_le_mono)
    have da: "a = 10 * (a div 10) + a mod 10" and db: "b = 10 * (b div 10) + b mod 10"
      by simp_all
    have "a div 10 < b div 10 \<or> (a div 10 = b div 10 \<and> a mod 10 < b mod 10)"
    proof (cases "a div 10 = b div 10")
      case True
      then have "a mod 10 < b mod 10" using da db "1.prems"(2) by linarith
      then show ?thesis using True by simp
    next
      case False
      then show ?thesis using dle by simp
    qed
    then show ?thesis
    proof
      assume lt: "a div 10 < b div 10"
      have "toString (a div 10) < toString (b div 10)"
        using "1.IH" [OF False len lt] .
      then have "(toString (a div 10), toString (b div 10)) \<in> lexord {(u, v). u < v}"
        by (simp add: list_less_def)
      then have "(toString (a div 10) @ [digit_char (a mod 10)],
                  toString (b div 10) @ [digit_char (b mod 10)]) \<in> lexord {(u, v). u < v}"
        using len by (intro lexord_sufI) simp_all
      then show ?thesis unfolding la lb by (simp add: list_less_def)
    next
      assume eq: "a div 10 = b div 10 \<and> a mod 10 < b mod 10"
      then have "digit_char (a mod 10) < digit_char (b mod 10)"
        by (intro digit_char_less) simp_all
      then have "(toString (b div 10) @ digit_char (a mod 10) # [],
                  toString (b div 10) @ digit_char (b mod 10) # []) \<in> lexord {(u, v). u < v}"
        by (intro lexord_append_left_rightI) simp
      then show ?thesis unfolding la lb using eq by (simp add: list_less_def)
    qed
  qed
qed

lemma length_toString_four: "1000 \<le> n \<Longrightarrow> n \<le> 9999 \<Longrightarrow> length (toString n) = 4"
proof -
  assume a: "1000 \<le> n" and b: "n \<le> 9999"
  have 1: "toString n = toString (n div 10) @ [digit_char (n mod 10)]"
    using a by (intro toString_large) simp
  have 2: "toString (n div 10) = toString (n div 10 div 10) @ [digit_char (n div 10 mod 10)]"
    using a by (intro toString_large) linarith
  have 3: "toString (n div 10 div 10)
      = toString (n div 10 div 10 div 10) @ [digit_char (n div 10 div 10 mod 10)]"
    using a by (intro toString_large) linarith
  have 4: "toString (n div 10 div 10 div 10) = [digit_char (n div 10 div 10 div 10)]"
    using b by (intro toString_small) linarith
  show ?thesis unfolding 1 2 3 4 by simp
qed

lemma four_digit_order:
  assumes "1000 \<le> x" "x \<le> 9999" "1000 \<le> y" "y \<le> 9999" "toString x \<le> toString y"
  shows "x \<le> y"
proof (rule ccontr)
  assume "\<not> x \<le> y"
  then have "y < x" by simp
  moreover have "length (toString y) = length (toString x)"
    using assms by (simp add: length_toString_four)
  ultimately have "toString y < toString x" by (rule toString_less [rotated])
  then show False using assms(5) by simp
qed

text \<open>The default sort orders four-digit years as numbers.\<close>

lemma sort_default_four_digit:
  assumes "\<forall>y\<in>set ys. 1000 \<le> y \<and> y \<le> 9999"
  shows "sort_default (new_Set ys) = sorted_list_of_set (set ys)"
proof -
  let ?years = "sort_default (new_Set ys)"
  have d: "distinct ?years" by (simp add: sort_default_def distinct_new_Set)
  have s: "set ?years = set ys" by (simp add: sort_default_def set_new_Set)
  have "sorted (map toString ?years)" by (simp add: sort_default_def)
  then have "sorted_wrt (\<lambda>x y. toString x \<le> toString y) ?years"
    by (simp add: sorted_map)
  then have so: "sorted ?years"
  proof (rule sorted_wrt_mono_rel [rotated])
    fix x y
    assume "x \<in> set ?years" and "y \<in> set ?years" and le: "toString x \<le> toString y"
    then have "x \<in> set ys" and "y \<in> set ys" unfolding s by blast+
    then have "1000 \<le> x \<and> x \<le> 9999" and "1000 \<le> y \<and> y \<le> 9999"
      using assms by blast+
    then show "x \<le> y" using le four_digit_order by blast
  qed
  show ?thesis
    using so d s by (intro sorted_distinct_set_unique) simp_all
qed

lemma trend_resolved:
  "generateVisualizationData_trend (Resolved (Response (Some evs) None))
   = Inr \<lparr> timeSeriesData = map (year_point evs) (sort_default (new_Set (map ev_year evs))),
           series = trend_series, yDomain = (0, 5) \<rparr>"
  by (simp add: generateVisualizationData_trend_def getCarTimeline_def try_catch_def awaited_def)

text \<open>
  Claim C3, as amended. For every list of timeline events whose years have four digits and
  whose scores are not 0, trend shaping produces one time-series point per distinct year, in
  ascending year order, labelled with the year as a string; each point carries, for each of
  the series Safety, Performance and Technology, the significance score of the first event
  of that year and type in the order of the timeline, and \<^verbatim>\<open>null\<close> where no such event
  exists; \<^verbatim>\<open>yDomain\<close> is \<open>[0, 5]\<close>. For the single safety event of 2020 with score 4 the time
  series is the single point labelled \<open>2020\<close> with Safety 4 and the two other series
  \<^verbatim>\<open>null\<close>.
\<close>

theorem trend_shape:
  "((\<forall>e\<in>set evs. 1000 \<le> ev_year e \<and> ev_year e \<le> 9999 \<and> truthy (significance_score e))
     \<longrightarrow> generateVisualizationData_trend (Resolved (Response (Some evs) None))
         = Inr \<lparr> timeSeriesData =
                   map (first_point evs) (sorted_list_of_set (ev_year ` set evs)),
                 series = trend_series, yDomain = (0, 5) \<rparr>)
   \<and> generateVisualizationData_trend (Resolved (Response (Some [safety_2020]) None))
       = Inr \<lparr> timeSeriesData =
                 [\<lparr> label = ''2020'', Safety = Num (Fin 4), Performance = Null,
                    Technology = Null \<rparr>],
               series = trend_series, yDomain = (0, 5) \<rparr>"
proof (intro conjI impI)
  assume h: "\<forall>e\<in>set evs. 1000 \<le> ev_year e \<and> ev_year e \<le> 9999 \<and> truthy (significance_score e)"
  then have "\<forall>y\<in>set (map ev_year evs). 1000 \<le> y \<and> y \<le> 9999" by simp
  then have y: "sort_default (new_Set (map ev_year evs)) = sorted_list_of_set (ev_year ` set evs)"
    using sort_default_four_digit [of "map ev_year evs"] by simp
  have "\<forall>e\<in>set evs. truthy (significance_score e)" using h by blast
  then have "year_point evs = first_point evs"
    by (intro ext year_point_first)
  then show "generateVisualizationData_trend (Resolved (Response (Some evs) None))
         = Inr \<lparr> timeSeriesData =
                   map (first_point evs) (sorted_list_of_set (ev_year ` set evs)),
                 series = trend_series, yDomain = (0, 5) \<rparr>"
    unfolding trend_resolved y by simp
next
  have y: "sort_default (new_Set (map ev_year [safety_2020])) = [2020]"
    by (simp add: sort_default_def safety_2020_def)
  have t: "toString 2020 = ''2020''" by code_simp
  have "year_point [safety_2020] 2020
      = \<lparr> label = ''2020'', Safety = Num (Fin 4), Performance = Null, Technology = Null \<rparr>"
    by (simp add: year_point_def series_score_def js_or_def safety_2020_def t)
  then show "generateVisualizationData_trend (Resolved (Response (Some [safety_2020]) None))
       = Inr \<lparr> timeSeriesData =
                 [\<lparr> label = ''2020'', Safety = Num (Fin 4), Performance = Null,
                    Technology = Null \<rparr>],
               series = trend_series, yDomain = (0, 5) \<rparr>"
    unfolding trend_resolved y by simp
qed

theorem trend_shape_witness:
  "1000 \<le> ev_year recall_2020 \<and> ev_year recall_2020 \<le> 9999
   \<and> truthy (significance_score recall_2020)
   \<and> 1000 \<le> ev_year engine_2016 \<and> ev_year engine_2016 \<le> 9999
   \<and> truthy (significance_score engine_2016)
   \<and> 1000 \<le> ev_year safety_2020 \<and> ev_year safety_2020 \<le> 9999
   \<and> truthy (significance_score safety_2020)
   \<and> generateVisualizationData_trend
         (Resolved (Response (Some [recall_2020, engine_2016, safety_2020]) None))
       = Inr \<lparr> timeSeriesData =
                 [ \<lparr> label = ''2016'', Safety = Null, Performance = Num (Fin 3),
                     Technology = Null \<rparr>,
                   \<lparr> label = ''2020'', Safety = Num (Fin 2), Performance = Null,
                     Technology = Null \<rparr> ],
               series = trend_series, yDomain = (0, 5) \<rparr>"
proof -
  let ?evs = "[recall_2020, engine_2016, safety_2020]"
  have r: "\<forall>e\<in>set ?evs. 1000 \<le> ev_year e \<and> ev_year e \<le> 9999 \<and> truthy (significance_score e)"
    by (simp add: recall_2020_def engine_2016_def safety_2020_def)
  have p: "generateVisualizationData_trend (Resolved (Response (Some ?evs) None))
      = Inr \<lparr> timeSeriesData = map (first_point ?evs) (sorted_list_of_set (ev_year ` set ?evs)),
              series = trend_series, yDomain = (0, 5) \<rparr>"
    using trend_shape [of ?evs, THEN conjunct1] r by blast
  have "ev_year ` set ?evs = set [2020, 2016]"
    by (auto simp: recall_2020_def engine_2016_def safety_2020_def)
  then have ys: "sorted_list_of_set (ev_year ` set ?evs) = [2016, 2020]"
    by (simp only: sorted_list_of_set_sort_remdups) simp
  have n: "toString 2016 = ''2016''" "toString 2020 = ''2020''" by code_simp+
  have "map (first_point ?evs) [2016, 2020] =
      [ \<lparr> label = ''2016'', Safety = Null, Performance = Num (Fin 3), Technology = Null \<rparr>,
        \<lparr> label = ''2020'', Safety = Num (Fin 2), Performance = Null, Technology = Null \<rparr> ]"
    by (simp add: first_point_def first_score_def n recall_2020_def engine_2016_def safety_2020_def)
  then show ?thesis using p r unfolding ys by simp
qed

text \<open>
  Claim C3 as stated fails: of two safety events of 2020 with scores 2 and 4, in this order,
  the point carries the score 2 of the first one, not the score 4 of the most significant.
\<close>

theorem trend_shape_counterexample:
  "generateVisualizationData_trend (Resolved (Response (Some [recall_2020, safety_2020]) None))
     = Inr \<lparr> timeSeriesData =
               [\<lparr> label = ''2020'', Safety = Num (Fin 2), Performance = Null,
                  Technology = Null \<rparr>],
             series = trend_series, yDomain = (0, 5) \<rparr>
   \<and> most_significant_score [recall_2020, safety_2020] 2020 ''safety'' = Num (Fin 4)"
  by code_simp

subsection \<open>Comparison shaping\<close>

text \<open>When the features query fails, \<^verbatim>\<open>getCarFeatures\<close> returns the empty object, and reading
  a category of the undefined \<^verbatim>\<open>features[carData.id]\<close> throws.\<close>

lemma entity_values_undefined:
  "features ident = None \<Longrightarrow> cats \<noteq> [] \<Longrightarrow> entity_values features ident rand i cats = Inl TypeError"
  by (cases cats) (simp_all add: overall_or_random_def)

lemma comparison_throws_when_features_fail:
  assumes "query_failed feat_out"
  shows "generateVisualizationData_comparison carData rel_out feat_out rand = Inl TypeError"
proof -
  obtain rels where r: "getCarRelationships rel_out = Inr rels"
    using getCarRelationships_returns by blast
  obtain e where "awaited feat_out = Inl e" using assms awaited_failed by blast
  then have f: "\<And>ids. getCarFeatures ids feat_out = Inr Map.empty"
    by (simp add: getCarFeatures_def try_catch_def)
  have "entity_values Map.empty (car_ident carData) rand 0 comparison_categories = Inl TypeError"
    by (rule entity_values_undefined) (simp_all add: comparison_categories_def)
  then show ?thesis
    by (simp add: generateVisualizationData_comparison_def r f Let_def)
qed

text \<open>When the features query resolves with rows, every id asked for has an object in the
  result, each value is the truthy \<^verbatim>\<open>overall\<close> rating or a placeholder between 3 and 5, and
  the payload is well formed. The placeholder can be 5 itself: the sum of 3 and the largest
  doubled draw, \<open>2 - 2 powi (- 52)\<close>, lies between two doubles and rounds to the upper one.\<close>

lemma random_fallback_range:
  fixes u :: rat
  assumes "0 \<le> u" "u < 1"
  shows "\<exists>r. js_add (js_mul (to_double u) (Fin 2)) (Fin 3) = Fin r \<and> 3 \<le> r \<and> r \<le> 5"
proof -
  obtain q where q: "to_double u = Fin q" "0 \<le> q" "q \<le> 1"
    using quotient_double [of u] assms by auto
  have "\<exists>m. to_double (q * 2) = Fin m \<and> 0 \<le> m \<and> m \<le> 2"
  proof (cases "q = 0")
    case True
    then show ?thesis by (simp add: to_double_def)
  next
    case False
    then have x0: "q * 2 \<noteq> 0" by simp
    have lt: "\<bar>q * 2\<bar> < 2 powi (1 + 1)" using q(2,3) by simp
    from to_double_near [OF x0 lt]
    obtain m where m: "to_double (q * 2) = Fin m"
      and g: "\<And>j :: int. (q * 2 \<le> of_int j * 2 powi (1 - 52) \<longrightarrow> m \<le> of_int j * 2 powi (1 - 52))
                 \<and> (of_int j * 2 powi (1 - 52) \<le> q * 2 \<longrightarrow> of_int j * 2 powi (1 - 52) \<le> m)"
      by auto
    have two: "of_int (2 ^ 52) * 2 powi (1 - 52) = (2 :: rat)" by (simp add: power_int_minus_divide)
    have "0 \<le> m" using g [of 0] q(2) by simp
    moreover have "q * 2 \<le> 2" using q(3) by simp
    then have "m \<le> 2" using g [of "2 ^ 52", unfolded two] by blast
    ultimately show ?thesis using m by simp
  qed
  then obtain m where m: "to_double (q * 2) = Fin m" "0 \<le> m" "m \<le> 2" by blast
  have x0: "m + 3 \<noteq> 0" using m(2) by simp
  have lt: "\<bar>m + 3\<bar> < 2 powi (2 + 1)" using m(2,3) by simp
  from to_double_near [OF x0 lt]
  obtain r where r: "to_double (m + 3) = Fin r"
    and g: "\<And>j :: int. (m + 3 \<le> of_int j * 2 powi (2 - 52) \<longrightarrow> r \<le> of_int j * 2 powi (2 - 52))
               \<and> (of_int j * 2 powi (2 - 52) \<le> m + 3 \<longrightarrow> of_int j * 2 powi (2 - 52) \<le> r)"
    by auto
  have three: "of_int (3 * 2 ^ 50) * 2 powi (2 - 52) = (3 :: rat)"
    and five: "of_int (5 * 2 ^ 50) * 2 powi (2 - 52) = (5 :: rat)"
    by (simp_all add: power_int_minus_divide)
  have "3 \<le> m + 3" "m + 3 \<le> 5" using m(2,3) by simp_all
  then have "3 \<le> r" "r \<le> 5"
    using g [of "3 * 2 ^ 50", unfolded three] g [of "5 * 2 ^ 50", unfolded five] by blast+
  then show ?thesis using q(1) m(1) r by simp
qed

lemma overall_or_random_defined:
  assumes "features ident = Some obj" "0 \<le> rand i" "rand i < 1"
  shows "\<exists>v j. overall_or_random features ident rand i cat = Inr (v, j)
           \<and> (truthy v \<and> j = i \<and> (\<exists>c. obj cat = Some c \<and> c ''overall'' = Some v)
                \<or> (\<exists>r. v = Num (Fin r) \<and> 3 \<le> r \<and> r \<le> 5 \<and> j = Suc i))"
  using assms(1) random_fallback_range [OF assms(2,3)]
  by (auto simp: overall_or_random_def Let_def split: option.splits)

lemma overall_or_random_returns:
  "features ident = Some obj \<Longrightarrow> \<exists>v j. overall_or_random features ident rand i cat = Inr (v, j)"
  by (simp add: overall_or_random_def Let_def)

lemma entity_values_defined:
  "features ident = Some obj \<Longrightarrow>
   \<exists>vs k. entity_values features ident rand i cats = Inr (vs, k) \<and> length vs = length cats"
proof (induction cats arbitrary: i)
  case Nil
  then show ?case by simp
next
  case (Cons cat cats)
  obtain v j where o: "overall_or_random features ident rand i cat = Inr (v, j)"
    using overall_or_random_returns [of features ident obj rand i cat] Cons.prems by blast
  obtain vs k where "entity_values features ident rand j cats = Inr (vs, k)" "length vs = length cats"
    using Cons.IH [OF Cons.prems] by blast
  then show ?case using o by simp
qed

lemma all_values_defined:
  "\<forall>ident\<in>set idents. features ident \<noteq> None \<Longrightarrow>
   \<exists>rows k. all_values features rand i idents = Inr (rows, k) \<and> length rows = length idents
      \<and> (\<forall>row\<in>set rows. length row = length comparison_categories)"
proof (induction idents arbitrary: i)
  case Nil
  then show ?case by simp
next
  case (Cons ident idents)
  then obtain obj where "features ident = Some obj" by auto
  then obtain row j where e: "entity_values features ident rand i comparison_categories = Inr (row, j)"
    and l: "length row = length comparison_categories"
    using entity_values_defined by blast
  obtain rows k where "all_values features rand j idents = Inr (rows, k)"
    "length rows = length idents" "\<forall>row\<in>set rows. length row = length comparison_categories"
    using Cons.IH [of j] Cons.prems by auto
  then show ?case using e l by simp
qed

lemma foldl_update_defined:
  "ident \<in> set idents \<or> m ident \<noteq> None \<Longrightarrow> foldl (\<lambda>result k. result(k \<mapsto> f k)) m idents ident \<noteq> None"
  by (induction idents arbitrary: m) auto

lemma comparison_well_formed_when_features_resolve:
  "\<exists>p. generateVisualizationData_comparison carData rel_out
           (Resolved (Response (Some rows) None)) rand = Inr p
       \<and> categories p = [''Performance'', ''Comfort'', ''Safety'', ''Technology'', ''Value'']
       \<and> length (cmp_values p) = length (entities p)
       \<and> (\<forall>row\<in>set (cmp_values p). length row = 5)"
proof -
  obtain rels where r: "getCarRelationships rel_out = Inr rels"
    using getCarRelationships_returns by blast
  define competitors where "competitors = take 2 (filter (\<lambda>rel. rel_type rel = ''competitor'') rels)"
  define carIds where "carIds = car_ident carData # map rel_id competitors"
  define features where "features = foldl (\<lambda>result ident.
      result(ident \<mapsto> car_object (filter (\<lambda>f. f_car_id f = ident) rows))) Map.empty carIds"
  have f: "getCarFeatures carIds (Resolved (Response (Some rows) None)) = Inr features"
    by (simp add: getCarFeatures_def try_catch_def awaited_def features_def)
  have "\<forall>ident\<in>set carIds. features ident \<noteq> None"
    unfolding features_def by (intro ballI foldl_update_defined) simp
  then obtain vals k where v: "all_values features rand 0 carIds = Inr (vals, k)"
    and lv: "length vals = length carIds"
    and lr: "\<forall>row\<in>set vals. length row = length comparison_categories"
    using all_values_defined by blast
  have "generateVisualizationData_comparison carData rel_out
           (Resolved (Response (Some rows) None)) rand
      = Inr \<lparr> categories = comparison_categories,
              entities = \<lparr> ent_id = car_ident carData, ent_name = display_name carData,
                           ent_color = ''#8884d8'' \<rparr> # competitor_entities competitors,
              cmp_values = vals \<rparr>"
    using f v
    by (simp add: generateVisualizationData_comparison_def r Let_def competitors_def [symmetric]
        carIds_def [symmetric])
  then show ?thesis
    using lv lr by (simp add: comparison_categories_def carIds_def competitor_entities_def)
qed

text \<open>
  Claim C2 does not hold of the code: for the empty mapping that the feature fetch returns
  when it fails closed, comparison shaping does not return a payload but throws a
  \<^verbatim>\<open>TypeError\<close>. Here the relationships query resolves with no rows and the features query
  rejects.
\<close>

theorem comparison_throws_on_failed_fetch:
  "getCarFeatures [car_ident civic] (Rejected (StoreError ''Failed to fetch'')) = Inr Map.empty
   \<and> generateVisualizationData_comparison civic (Resolved (Response (Some []) None))
        (Rejected (StoreError ''Failed to fetch'')) (\<lambda>n. 1 / 2) = Inl TypeError"
proof -
  have q: "query_failed (Rejected (StoreError ''Failed to fetch'') :: feature_row outcome)"
    by (simp add: query_failed_def)
  have "getCarFeatures [car_ident civic] (Rejected (StoreError ''Failed to fetch'')) = Inr Map.empty"
    by (simp add: getCarFeatures_def try_catch_def awaited_def)
  then show ?thesis using comparison_throws_when_features_fail [OF q] by simp
qed

end
